theory Spec2Isabelle
  imports Complex_Main
begin

section \<open>Tensors and the tensor-library primitives used by \<open>models/sngan.py\<close>\<close>

text \<open>
  A tensor is a shape together with its entries in row-major order, as a contiguous
  library tensor is laid out. The operations that only move entries (\<open>view\<close>,
  broadcasting, upsampling) do not depend on what an entry is; \<open>tensor\<close> is the
  tensor of real numbers. Every failure the library reports by raising is a value of
  \<open>error\<close>.
\<close>

datatype error = RuntimeError | ValueError | IndexError

datatype 'a tensor_of = Tensor (shape: "nat list") (data: "'a list")

type_synonym tensor = "real tensor_of"

definition numel :: "'a tensor_of \<Rightarrow> nat" where
  "numel t = prod_list (shape t)"

definition wf_tensor :: "'a tensor_of \<Rightarrow> bool" where
  "wf_tensor t \<longleftrightarrow> length (data t) = prod_list (shape t)"

definition tabulate :: "nat list \<Rightarrow> (nat \<Rightarrow> 'a) \<Rightarrow> 'a tensor_of" where
  "tabulate s f = Tensor s (map f [0..<prod_list s])"

text \<open>Entry \<open>(n, c, h, w)\<close> of a rank-4 tensor.\<close>

definition at4 :: "'a tensor_of \<Rightarrow> nat \<Rightarrow> nat \<Rightarrow> nat \<Rightarrow> nat \<Rightarrow> 'a" where
  "at4 t n c h w =
     data t ! (((n * (shape t ! 1) + c) * (shape t ! 2) + h) * (shape t ! 3) + w)"

text \<open>\<open>t.size(i)\<close>.\<close>

definition size_dim :: "'a tensor_of \<Rightarrow> nat \<Rightarrow> error + nat" where
  "size_dim t i = (if i < length (shape t) then Inr (shape t ! i) else Inl IndexError)"

text \<open>
  \<open>t.view(dims)\<close>: at most one entry of \<open>dims\<close> is \<open>-1\<close> and is inferred from the
  number of elements; inference is refused when the other entries multiply to zero.
\<close>

definition view :: "'a tensor_of \<Rightarrow> int list \<Rightarrow> error + 'a tensor_of" where
  "view t dims =
     (let n = numel t;
          known = filter (\<lambda>d. d \<noteq> - 1) dims;
          p = nat (prod_list known)
      in if list_ex (\<lambda>d. d < - 1) dims then Inl RuntimeError
         else if length known = length dims then
           (if p = n then Inr (Tensor (map nat dims) (data t)) else Inl RuntimeError)
         else if length known + 1 < length dims then Inl RuntimeError
         else if p = 0 then Inl RuntimeError
         else if n mod p \<noteq> 0 then Inl RuntimeError
         else Inr (Tensor (map (\<lambda>d. if d = - 1 then n div p else nat d) dims) (data t)))"

text \<open>Broadcasting of two shapes: trailing dimensions are aligned, missing ones are 1.\<close>

definition pad_shape :: "nat \<Rightarrow> nat list \<Rightarrow> nat list" where
  "pad_shape r s = replicate (r - length s) 1 @ s"

fun bshape :: "nat list \<Rightarrow> nat list \<Rightarrow> nat list option" where
  "bshape [] [] = Some []"
| "bshape (a # as) (b # bs) =
     (if a = b \<or> a = 1 \<or> b = 1 then
        (case bshape as bs of None \<Rightarrow> None
         | Some s \<Rightarrow> Some ((if a = 1 then b else a) # s))
      else None)"
| "bshape _ _ = None"

text \<open>The flat index in an operand of shape \<open>as\<close> of the entry at flat index \<open>i\<close> of the
  broadcast result of shape \<open>ds\<close>.\<close>

fun bidx :: "nat list \<Rightarrow> nat list \<Rightarrow> nat \<Rightarrow> nat" where
  "bidx (d # ds) (a # as) i =
     (if a = 1 then 0 else i div prod_list ds) * prod_list as + bidx ds as (i mod prod_list ds)"
| "bidx _ _ i = 0"

definition broadcast2 ::
  "('a \<Rightarrow> 'a \<Rightarrow> 'a) \<Rightarrow> 'a tensor_of \<Rightarrow> 'a tensor_of \<Rightarrow> error + 'a tensor_of" where
  "broadcast2 f x y =
     (let r = max (length (shape x)) (length (shape y));
          sx = pad_shape r (shape x);
          sy = pad_shape r (shape y)
      in case bshape sx sy of
           None \<Rightarrow> Inl RuntimeError
         | Some s \<Rightarrow> Inr (tabulate s (\<lambda>i. f (data x ! bidx s sx i) (data y ! bidx s sy i))))"

definition t_add :: "tensor \<Rightarrow> tensor \<Rightarrow> error + tensor" where
  "t_add = broadcast2 (+)"

definition t_mul :: "tensor \<Rightarrow> tensor \<Rightarrow> error + tensor" where
  "t_mul = broadcast2 (*)"

text \<open>\<open>torch.sum(t, 1, keepdim=True)\<close>.\<close>

definition sum_dim1 :: "tensor \<Rightarrow> error + tensor" where
  "sum_dim1 t =
     (if length (shape t) < 2 then Inl IndexError
      else let d0 = shape t ! 0; d1 = shape t ! 1; r = prod_list (drop 2 (shape t))
           in Inr (tabulate (d0 # 1 # drop 2 (shape t))
                     (\<lambda>i. \<Sum>j\<leftarrow>[0..<d1]. data t ! (((i div r) * d1 + j) * r + i mod r))))"

text \<open>Element-wise activations.\<close>

definition relu :: "tensor \<Rightarrow> tensor" where
  "relu t = Tensor (shape t) (map (\<lambda>v. max 0 v) (data t))"

definition t_tanh :: "tensor \<Rightarrow> tensor" where
  "t_tanh t = Tensor (shape t) (map tanh (data t))"

text \<open>
  \<open>F.linear\<close>: the weight has shape \<open>(out, in)\<close>, the input's last dimension is \<open>in\<close>,
  the optional bias has shape \<open>(out)\<close>.
\<close>

definition F_linear :: "tensor \<Rightarrow> tensor \<Rightarrow> tensor option \<Rightarrow> error + tensor" where
  "F_linear x W b =
     (if length (shape W) \<noteq> 2 \<or> shape x = [] then Inl RuntimeError
      else let out = shape W ! 0; inn = shape W ! 1
           in if last (shape x) \<noteq> inn then Inl RuntimeError
              else if (case b of None \<Rightarrow> False | Some bt \<Rightarrow> shape bt \<noteq> [out])
                then Inl RuntimeError
              else Inr (tabulate (butlast (shape x) @ [out])
                     (\<lambda>i. (\<Sum>k\<leftarrow>[0..<inn].
                              data x ! ((i div out) * inn + k) * data W ! ((i mod out) * inn + k))
                          + (case b of None \<Rightarrow> 0 | Some bt \<Rightarrow> data bt ! (i mod out)))))"

text \<open>
  \<open>F.conv2d\<close> on a batched rank-4 input with zero padding: the weight has shape
  \<open>(out, in, kh, kw)\<close>. An input that is not rank 4 is refused here.
\<close>

definition F_conv2d :: "tensor \<Rightarrow> tensor \<Rightarrow> tensor option \<Rightarrow> nat \<Rightarrow> nat \<Rightarrow> error + tensor" where
  "F_conv2d x W b stride pad =
     (if length (shape x) \<noteq> 4 \<or> length (shape W) \<noteq> 4 then Inl RuntimeError
      else let N = shape x ! 0; C = shape x ! 1; H = shape x ! 2; Wd = shape x ! 3;
               Co = shape W ! 0; Ci = shape W ! 1; KH = shape W ! 2; KW = shape W ! 3
           in if C \<noteq> Ci \<or> H + 2 * pad < KH \<or> Wd + 2 * pad < KW \<or> stride = 0
                then Inl RuntimeError
              else if (case b of None \<Rightarrow> False | Some bt \<Rightarrow> shape bt \<noteq> [Co])
                then Inl RuntimeError
              else let H' = (H + 2 * pad - KH) div stride + 1;
                       W' = (Wd + 2 * pad - KW) div stride + 1
                   in Inr (tabulate [N, Co, H', W']
                        (\<lambda>i. let n = i div (Co * H' * W'); co = i div (H' * W') mod Co;
                                 y = i div W' mod H'; xx = i mod W'
                             in (\<Sum>c\<leftarrow>[0..<C]. \<Sum>dy\<leftarrow>[0..<KH]. \<Sum>dx\<leftarrow>[0..<KW].
                                   (let yy = y * stride + dy; xq = xx * stride + dx
                                    in if pad \<le> yy \<and> yy < H + pad \<and> pad \<le> xq \<and> xq < Wd + pad
                                       then at4 x n c (yy - pad) (xq - pad) * at4 W co c dy dx
                                       else 0))
                                + (case b of None \<Rightarrow> 0 | Some bt \<Rightarrow> data bt ! co))))"

text \<open>\<open>nn.Upsample(scale_factor=s)\<close>, nearest neighbour, on a rank-4 input.\<close>

definition upsample :: "nat \<Rightarrow> 'a tensor_of \<Rightarrow> error + 'a tensor_of" where
  "upsample s x =
     (if length (shape x) \<noteq> 4 \<or> s = 0 then Inl RuntimeError
      else let N = shape x ! 0; C = shape x ! 1; H = shape x ! 2; Wd = shape x ! 3
           in Inr (tabulate [N, C, H * s, Wd * s]
                (\<lambda>i. at4 x (i div (C * (H * s) * (Wd * s))) (i div ((H * s) * (Wd * s)) mod C)
                        ((i div (Wd * s) mod (H * s)) div s) ((i mod (Wd * s)) div s))))"

text \<open>
  \<open>nn.AvgPool2d(k, stride, padding=0)\<close> on a rank-4 input; the output size is rounded
  down, and an output without rows or columns is refused.
\<close>

definition avg_pool2d :: "nat \<Rightarrow> nat \<Rightarrow> tensor \<Rightarrow> error + tensor" where
  "avg_pool2d k stride x =
     (if length (shape x) \<noteq> 4 \<or> k = 0 \<or> stride = 0 then Inl RuntimeError
      else let N = shape x ! 0; C = shape x ! 1; H = shape x ! 2; Wd = shape x ! 3
           in if H < k \<or> Wd < k then Inl RuntimeError
              else let H' = (H - k) div stride + 1; W' = (Wd - k) div stride + 1
                   in Inr (tabulate [N, C, H', W']
                        (\<lambda>i. let n = i div (C * H' * W'); c = i div (H' * W') mod C;
                                 y = i div W' mod H'; xx = i mod W'
                             in (\<Sum>dy\<leftarrow>[0..<k]. \<Sum>dx\<leftarrow>[0..<k].
                                   at4 x n c (y * stride + dy) (xx * stride + dx))
                                / real (k * k))))"

section \<open>Errors as values\<close>

text \<open>A raised exception ends the forward pass: \<open>ebind\<close> passes the first error on.\<close>

fun ebind :: "error + 'a \<Rightarrow> ('a \<Rightarrow> error + 'b) \<Rightarrow> error + 'b" where
  "ebind (Inl e) f = Inl e"
| "ebind (Inr v) f = f v"

section \<open>Library layers with their buffers\<close>

subsection \<open>Batch normalisation\<close>

text \<open>
  \<open>nn.BatchNorm2d(num_features, affine)\<close> with the library's defaults \<open>eps = 1e-5\<close> and
  \<open>momentum = 0.1\<close>. In training mode the batch statistics normalise the input and the
  running statistics are updated; in evaluation mode the running statistics normalise it.
\<close>

record batchnorm =
  bn_num_features :: nat
  bn_affine :: "(real list \<times> real list) option"
  bn_running_mean :: "real list"
  bn_running_var :: "real list"
  bn_num_batches_tracked :: nat
  bn_training :: bool

definition bn_eps :: real where
  "bn_eps = 1 / 100000"

definition bn_momentum :: real where
  "bn_momentum = 1 / 10"

definition BatchNorm2d_init :: "nat \<Rightarrow> bool \<Rightarrow> batchnorm" where
  "BatchNorm2d_init nf affine =
     \<lparr> bn_num_features = nf,
       bn_affine = (if affine then Some (replicate nf 1, replicate nf 0) else None),
       bn_running_mean = replicate nf 0,
       bn_running_var = replicate nf 1,
       bn_num_batches_tracked = 0,
       bn_training = True \<rparr>"

text \<open>Mean and biased variance of channel \<open>c\<close> over batch, rows and columns.\<close>

definition chan_mean :: "tensor \<Rightarrow> nat \<Rightarrow> real" where
  "chan_mean x c =
     (\<Sum>n\<leftarrow>[0..<shape x ! 0]. \<Sum>h\<leftarrow>[0..<shape x ! 2]. \<Sum>w\<leftarrow>[0..<shape x ! 3]. at4 x n c h w)
       / real (shape x ! 0 * shape x ! 2 * shape x ! 3)"

definition chan_var :: "tensor \<Rightarrow> nat \<Rightarrow> real" where
  "chan_var x c =
     (\<Sum>n\<leftarrow>[0..<shape x ! 0]. \<Sum>h\<leftarrow>[0..<shape x ! 2]. \<Sum>w\<leftarrow>[0..<shape x ! 3].
         (at4 x n c h w - chan_mean x c)\<^sup>2)
       / real (shape x ! 0 * shape x ! 2 * shape x ! 3)"

definition bn_apply :: "batchnorm \<Rightarrow> (nat \<Rightarrow> real) \<Rightarrow> (nat \<Rightarrow> real) \<Rightarrow> tensor \<Rightarrow> tensor" where
  "bn_apply bn mu var x =
     Tensor (shape x)
       (map (\<lambda>i. let c = i div (shape x ! 2 * shape x ! 3) mod (shape x ! 1);
                      xhat = (data x ! i - mu c) / sqrt (var c + bn_eps)
                  in case bn_affine bn of None \<Rightarrow> xhat
                     | Some (g, b) \<Rightarrow> xhat * g ! c + b ! c)
          [0..<length (data x)])"

definition BatchNorm2d_forward :: "batchnorm \<Rightarrow> tensor \<Rightarrow> error + (batchnorm \<times> tensor)" where
  "BatchNorm2d_forward bn x =
     (if length (shape x) \<noteq> 4 then Inl ValueError
      else if shape x ! 1 \<noteq> bn_num_features bn then Inl RuntimeError
      else if bn_training bn then
        (let cnt = shape x ! 0 * shape x ! 2 * shape x ! 3
         in if cnt = 1 then Inl ValueError
            else Inr (bn \<lparr> bn_running_mean :=
                             map (\<lambda>c. (1 - bn_momentum) * bn_running_mean bn ! c
                                        + bn_momentum * chan_mean x c)
                               [0..<bn_num_features bn],
                           bn_running_var :=
                             map (\<lambda>c. (1 - bn_momentum) * bn_running_var bn ! c
                                        + bn_momentum * (chan_var x c * real cnt / real (cnt - 1)))
                               [0..<bn_num_features bn],
                           bn_num_batches_tracked := bn_num_batches_tracked bn + 1 \<rparr>,
                      bn_apply bn (chan_mean x) (chan_var x) x))
      else Inr (bn, bn_apply bn (\<lambda>c. bn_running_mean bn ! c) (\<lambda>c. bn_running_var bn ! c) x))"

subsection \<open>Spectral normalisation\<close>

text \<open>
  \<open>torch.nn.utils.spectral_norm(module)\<close> keeps the original weight and two vectors
  \<open>u\<close>, \<open>v\<close>. Before each forward call the weight, read as a matrix with one row per
  output unit, is divided by \<open>\<sigma> = u\<^sup>T W v\<close>; in training mode \<open>u\<close> and \<open>v\<close> first
  take one power-iteration step.
\<close>

record spectral =
  sn_u :: "real list"
  sn_v :: "real list"

definition dot :: "real list \<Rightarrow> real list \<Rightarrow> real" where
  "dot a b = (\<Sum>k\<leftarrow>[0..<length a]. a ! k * b ! k)"

definition l2_normalize :: "real list \<Rightarrow> real list" where
  "l2_normalize a = map (\<lambda>v. v / max (sqrt (dot a a)) (1 / 10 ^ 12)) a"

text \<open>\<open>W v\<close> and \<open>W\<^sup>T u\<close> for the \<open>rows \<times> cols\<close> matrix stored row-major in \<open>w\<close>.\<close>

definition mat_vec :: "nat \<Rightarrow> nat \<Rightarrow> real list \<Rightarrow> real list \<Rightarrow> real list" where
  "mat_vec rows cols w v = map (\<lambda>r. \<Sum>k\<leftarrow>[0..<cols]. w ! (r * cols + k) * v ! k) [0..<rows]"

definition mat_tvec :: "nat \<Rightarrow> nat \<Rightarrow> real list \<Rightarrow> real list \<Rightarrow> real list" where
  "mat_tvec rows cols w u = map (\<lambda>k. \<Sum>r\<leftarrow>[0..<rows]. w ! (r * cols + k) * u ! r) [0..<cols]"

definition sn_step :: "bool \<Rightarrow> tensor \<Rightarrow> spectral \<Rightarrow> spectral" where
  "sn_step training W st =
     (if training then
        (let rows = shape W ! 0; cols = prod_list (tl (shape W));
             v' = l2_normalize (mat_tvec rows cols (data W) (sn_u st));
             u' = l2_normalize (mat_vec rows cols (data W) v')
         in \<lparr> sn_u = u', sn_v = v' \<rparr>)
      else st)"

definition sn_sigma :: "tensor \<Rightarrow> spectral \<Rightarrow> real" where
  "sn_sigma W st =
     dot (sn_u st) (mat_vec (shape W ! 0) (prod_list (tl (shape W))) (data W) (sn_v st))"

definition sn_weight :: "tensor \<Rightarrow> spectral \<Rightarrow> tensor" where
  "sn_weight W st = Tensor (shape W) (map (\<lambda>v. v / sn_sigma W st) (data W))"

text \<open>
  The weight a layer computes with, and its spectral-norm buffers after the call:
  a layer never wrapped uses its weight as it is.
\<close>

definition effective_weight ::
  "bool \<Rightarrow> tensor \<Rightarrow> spectral option \<Rightarrow> spectral option \<times> tensor" where
  "effective_weight training W sn =
     (case sn of None \<Rightarrow> (None, W)
      | Some st \<Rightarrow> (let st' = sn_step training W st in (Some st', sn_weight W st')))"

subsection \<open>Convolution and linear layers\<close>

record conv2d =
  cv_weight :: tensor
  cv_bias :: "tensor option"
  cv_stride :: nat
  cv_padding :: nat
  cv_sn :: "spectral option"
  cv_training :: bool

record linear =
  ln_weight :: tensor
  ln_bias :: "tensor option"
  ln_sn :: "spectral option"
  ln_training :: bool

definition Conv2d_forward :: "conv2d \<Rightarrow> tensor \<Rightarrow> error + (conv2d \<times> tensor)" where
  "Conv2d_forward cv x =
     (let (sn', W) = effective_weight (cv_training cv) (cv_weight cv) (cv_sn cv)
      in ebind (F_conv2d x W (cv_bias cv) (cv_stride cv) (cv_padding cv))
           (\<lambda>out. Inr (cv \<lparr> cv_sn := sn' \<rparr>, out)))"

definition Linear_forward :: "linear \<Rightarrow> tensor \<Rightarrow> error + (linear \<times> tensor)" where
  "Linear_forward lin x =
     (let (sn', W) = effective_weight (ln_training lin) (ln_weight lin) (ln_sn lin)
      in ebind (F_linear x W (ln_bias lin))
           (\<lambda>out. Inr (lin \<lparr> ln_sn := sn' \<rparr>, out)))"

text \<open>
  Construction. The entries a layer is initialised with (the draws of the library's
  default initialiser, of \<open>xavier_uniform_\<close>, and of the normal draws behind \<open>u\<close>
  and \<open>v\<close>) are supplied by \<open>src\<close>, keyed by the parameter's name.
\<close>

type_synonym init_source = "string \<Rightarrow> nat \<Rightarrow> real"

definition Conv2d_init ::
  "init_source \<Rightarrow> nat \<Rightarrow> nat \<Rightarrow> nat \<Rightarrow> nat \<Rightarrow> nat \<Rightarrow> bool \<Rightarrow> conv2d" where
  "Conv2d_init src cin cout k stride pad with_bias =
     \<lparr> cv_weight = tabulate [cout, cin, k, k] (src ''weight''),
       cv_bias = (if with_bias then Some (tabulate [cout] (src ''bias'')) else None),
       cv_stride = stride,
       cv_padding = pad,
       cv_sn = None,
       cv_training = True \<rparr>"

definition Linear_init :: "init_source \<Rightarrow> nat \<Rightarrow> nat \<Rightarrow> bool \<Rightarrow> linear" where
  "Linear_init src fin fout with_bias =
     \<lparr> ln_weight = tabulate [fout, fin] (src ''weight''),
       ln_bias = (if with_bias then Some (tabulate [fout] (src ''bias'')) else None),
       ln_sn = None,
       ln_training = True \<rparr>"

text \<open>\<open>spectral_norm(module)\<close> changes the module in place and returns it.\<close>

definition spectral_init :: "init_source \<Rightarrow> tensor \<Rightarrow> spectral" where
  "spectral_init src W =
     \<lparr> sn_u = l2_normalize (map (src ''weight_u'') [0..<shape W ! 0]),
       sn_v = l2_normalize (map (src ''weight_v'') [0..<prod_list (tl (shape W))]) \<rparr>"

definition spectral_norm_conv :: "init_source \<Rightarrow> conv2d \<Rightarrow> conv2d" where
  "spectral_norm_conv src cv = cv \<lparr> cv_sn := Some (spectral_init src (cv_weight cv)) \<rparr>"

definition spectral_norm_linear :: "init_source \<Rightarrow> linear \<Rightarrow> linear" where
  "spectral_norm_linear src lin = lin \<lparr> ln_sn := Some (spectral_init src (ln_weight lin)) \<rparr>"

section \<open>Generator\<close>

definition channels :: nat where
  "channels = 3"

definition bias :: bool where
  "bias = True"

text \<open>The initial entries of a sub-module's parameters: names are prefixed by its name.\<close>

definition sub :: "(string \<Rightarrow> 'a) \<Rightarrow> string \<Rightarrow> string \<Rightarrow> 'a" where
  "sub src name = (\<lambda>k. src (name @ ''.'' @ k))"

subsection \<open>\<open>ConditionalBatchNorm2d\<close>\<close>

record cond_bn =
  cbn_num_features :: nat
  cbn_bn :: batchnorm
  cbn_embed_gamma :: linear
  cbn_embed_beta :: linear

definition ConditionalBatchNorm2d_init :: "init_source \<Rightarrow> nat \<Rightarrow> nat \<Rightarrow> cond_bn" where
  "ConditionalBatchNorm2d_init src num_features dim_embed =
     \<lparr> cbn_num_features = num_features,
       cbn_bn = BatchNorm2d_init num_features False,
       cbn_embed_gamma = Linear_init (sub src ''embed_gamma'') dim_embed num_features False,
       cbn_embed_beta = Linear_init (sub src ''embed_beta'') dim_embed num_features False \<rparr>"

definition ConditionalBatchNorm2d_forward ::
  "cond_bn \<Rightarrow> tensor \<Rightarrow> tensor \<Rightarrow> error + (cond_bn \<times> tensor)" where
  "ConditionalBatchNorm2d_forward m x y =
     ebind (BatchNorm2d_forward (cbn_bn m) x) (\<lambda>(bn', out).
     ebind (Linear_forward (cbn_embed_gamma m) y) (\<lambda>(eg', g).
     ebind (view g [- 1, int (cbn_num_features m), 1, 1]) (\<lambda>gamma.
     ebind (Linear_forward (cbn_embed_beta m) y) (\<lambda>(eb', b).
     ebind (view b [- 1, int (cbn_num_features m), 1, 1]) (\<lambda>beta.
     ebind (t_mul out gamma) (\<lambda>og.
     ebind (t_add out og) (\<lambda>s.
     ebind (t_add s beta) (\<lambda>res.
       Inr (m \<lparr> cbn_bn := bn', cbn_embed_gamma := eg', cbn_embed_beta := eb' \<rparr>, res)))))))))"

subsection \<open>\<open>ResBlockGenerator\<close>\<close>

text \<open>
  The block owns three convolutions, two conditional normalisations and, inside its
  \<open>nn.Sequential\<close> \<open>model\<close>, two plain batch normalisations (entries 0 and 4). The
  containers \<open>model\<close> and \<open>bypass\<close> hold \<open>self.conv1\<close>, \<open>self.conv2\<close> and
  \<open>self.bypass_conv\<close> themselves, not copies: an entry names the module it runs.
\<close>

datatype conv_ref = Conv1 | Conv2 | BypassConv

datatype bn_ref = ModelBN0 | ModelBN4

datatype g_layer = G_BatchNorm2d bn_ref | G_ReLU | G_Upsample nat | G_Conv conv_ref

record gen_block =
  gb_conv1 :: conv2d
  gb_conv2 :: conv2d
  gb_condgn1 :: cond_bn
  gb_condgn2 :: cond_bn
  gb_model_bn0 :: batchnorm
  gb_model_bn4 :: batchnorm
  gb_model :: "g_layer list"
  gb_bypass_conv :: conv2d
  gb_bypass :: "g_layer list"

definition ResBlockGenerator_init ::
  "init_source \<Rightarrow> nat \<Rightarrow> nat \<Rightarrow> nat \<Rightarrow> bool \<Rightarrow> gen_block" where
  "ResBlockGenerator_init src in_channels out_channels dim_embed with_bias =
     \<lparr> gb_conv1 = Conv2d_init (sub src ''conv1'') in_channels out_channels 3 1 1 with_bias,
       gb_conv2 = Conv2d_init (sub src ''conv2'') out_channels out_channels 3 1 1 with_bias,
       gb_condgn1 = ConditionalBatchNorm2d_init (sub src ''condgn1'') in_channels dim_embed,
       gb_condgn2 = ConditionalBatchNorm2d_init (sub src ''condgn2'') out_channels dim_embed,
       gb_model_bn0 = BatchNorm2d_init in_channels True,
       gb_model_bn4 = BatchNorm2d_init out_channels True,
       gb_model = [G_BatchNorm2d ModelBN0, G_ReLU, G_Upsample 2, G_Conv Conv1,
                   G_BatchNorm2d ModelBN4, G_ReLU, G_Conv Conv2],
       gb_bypass_conv = Conv2d_init (sub src ''bypass_conv'') in_channels out_channels 1 1 0 with_bias,
       gb_bypass = [G_Upsample 2, G_Conv BypassConv] \<rparr>"

fun gb_conv :: "gen_block \<Rightarrow> conv_ref \<Rightarrow> conv2d" where
  "gb_conv b Conv1 = gb_conv1 b"
| "gb_conv b Conv2 = gb_conv2 b"
| "gb_conv b BypassConv = gb_bypass_conv b"

fun gb_set_conv :: "gen_block \<Rightarrow> conv_ref \<Rightarrow> conv2d \<Rightarrow> gen_block" where
  "gb_set_conv b Conv1 cv = b \<lparr> gb_conv1 := cv \<rparr>"
| "gb_set_conv b Conv2 cv = b \<lparr> gb_conv2 := cv \<rparr>"
| "gb_set_conv b BypassConv cv = b \<lparr> gb_bypass_conv := cv \<rparr>"

fun gb_bn :: "gen_block \<Rightarrow> bn_ref \<Rightarrow> batchnorm" where
  "gb_bn b ModelBN0 = gb_model_bn0 b"
| "gb_bn b ModelBN4 = gb_model_bn4 b"

fun gb_set_bn :: "gen_block \<Rightarrow> bn_ref \<Rightarrow> batchnorm \<Rightarrow> gen_block" where
  "gb_set_bn b ModelBN0 bn = b \<lparr> gb_model_bn0 := bn \<rparr>"
| "gb_set_bn b ModelBN4 bn = b \<lparr> gb_model_bn4 := bn \<rparr>"

fun gb_layer :: "gen_block \<Rightarrow> g_layer \<Rightarrow> tensor \<Rightarrow> error + (gen_block \<times> tensor)" where
  "gb_layer b (G_BatchNorm2d r) x =
     ebind (BatchNorm2d_forward (gb_bn b r) x) (\<lambda>(bn', out). Inr (gb_set_bn b r bn', out))"
| "gb_layer b G_ReLU x = Inr (b, relu x)"
| "gb_layer b (G_Upsample s) x = ebind (upsample s x) (\<lambda>out. Inr (b, out))"
| "gb_layer b (G_Conv r) x =
     ebind (Conv2d_forward (gb_conv b r) x) (\<lambda>(cv', out). Inr (gb_set_conv b r cv', out))"

text \<open>\<open>nn.Sequential.forward\<close>: the entries run in order.\<close>

fun gb_sequential :: "gen_block \<Rightarrow> g_layer list \<Rightarrow> tensor \<Rightarrow> error + (gen_block \<times> tensor)" where
  "gb_sequential b [] x = Inr (b, x)"
| "gb_sequential b (l # ls) x = ebind (gb_layer b l x) (\<lambda>(b', out). gb_sequential b' ls out)"

definition ResBlockGenerator_forward ::
  "gen_block \<Rightarrow> tensor \<Rightarrow> tensor option \<Rightarrow> error + (gen_block \<times> tensor)" where
  "ResBlockGenerator_forward b x h =
     (case h of
        Some hh \<Rightarrow>
          ebind (ConditionalBatchNorm2d_forward (gb_condgn1 b) x hh) (\<lambda>(c1, out).
          ebind (upsample 2 (relu out)) (\<lambda>out.
          ebind (Conv2d_forward (gb_conv1 b) out) (\<lambda>(cv1, out).
          ebind (ConditionalBatchNorm2d_forward (gb_condgn2 b) out hh) (\<lambda>(c2, out).
          ebind (Conv2d_forward (gb_conv2 b) (relu out)) (\<lambda>(cv2, out).
          ebind (gb_sequential
                   (b \<lparr> gb_conv1 := cv1, gb_conv2 := cv2, gb_condgn1 := c1, gb_condgn2 := c2 \<rparr>)
                   (gb_bypass b) x) (\<lambda>(b', byp).
          ebind (t_add out byp) (\<lambda>res. Inr (b', res))))))))
      | None \<Rightarrow>
          ebind (gb_sequential b (gb_model b) x) (\<lambda>(b1, out).
          ebind (gb_sequential b1 (gb_bypass b1) x) (\<lambda>(b2, byp).
          ebind (t_add out byp) (\<lambda>res. Inr (b2, res)))))"

subsection \<open>\<open>SnganGenerator\<close>\<close>

text \<open>
  \<open>self.final\<close> is the container of a batch normalisation, a ReLU, the final convolution
  and a tanh; the record keeps its two modules with parameters.
\<close>

record generator =
  gen_z_dim :: nat
  gen_dim_embed :: nat
  gen_gen_ch :: nat
  gen_dense :: linear
  gen_genblock0 :: gen_block
  gen_genblock1 :: gen_block
  gen_genblock2 :: gen_block
  gen_genblock3 :: gen_block
  gen_final_bn :: batchnorm
  gen_final_conv :: conv2d

definition SnganGenerator_init :: "init_source \<Rightarrow> nat \<Rightarrow> nat \<Rightarrow> nat \<Rightarrow> generator" where
  "SnganGenerator_init src nz dim_embed gen_ch =
     \<lparr> gen_z_dim = nz,
       gen_dim_embed = dim_embed,
       gen_gen_ch = gen_ch,
       gen_dense = Linear_init (sub src ''dense'') nz (4 * 4 * gen_ch * 16) True,
       gen_genblock0 =
         ResBlockGenerator_init (sub src ''genblock0'') (gen_ch * 16) (gen_ch * 8) dim_embed True,
       gen_genblock1 =
         ResBlockGenerator_init (sub src ''genblock1'') (gen_ch * 8) (gen_ch * 4) dim_embed True,
       gen_genblock2 =
         ResBlockGenerator_init (sub src ''genblock2'') (gen_ch * 4) (gen_ch * 2) dim_embed True,
       gen_genblock3 =
         ResBlockGenerator_init (sub src ''genblock3'') (gen_ch * 2) gen_ch dim_embed True,
       gen_final_bn = BatchNorm2d_init gen_ch True,
       gen_final_conv = Conv2d_init (sub src ''final.2'') gen_ch channels 3 1 1 bias \<rparr>"

definition SnganGenerator_forward ::
  "generator \<Rightarrow> tensor \<Rightarrow> tensor option \<Rightarrow> error + (generator \<times> tensor)" where
  "SnganGenerator_forward g z h =
     ebind (size_dim z 0) (\<lambda>s0.
     ebind (size_dim z 1) (\<lambda>s1.
     ebind (view z [int s0, int s1]) (\<lambda>z.
     ebind (Linear_forward (gen_dense g) z) (\<lambda>(dense', out).
     ebind (view out [- 1, int (gen_gen_ch g * 16), 4, 4]) (\<lambda>out.
     ebind (ResBlockGenerator_forward (gen_genblock0 g) out h) (\<lambda>(b0, out).
     ebind (ResBlockGenerator_forward (gen_genblock1 g) out h) (\<lambda>(b1, out).
     ebind (ResBlockGenerator_forward (gen_genblock2 g) out h) (\<lambda>(b2, out).
     ebind (ResBlockGenerator_forward (gen_genblock3 g) out h) (\<lambda>(b3, out).
     ebind (BatchNorm2d_forward (gen_final_bn g) out) (\<lambda>(bn', out).
     ebind (Conv2d_forward (gen_final_conv g) (relu out)) (\<lambda>(cv', out).
       Inr (g \<lparr> gen_dense := dense', gen_genblock0 := b0, gen_genblock1 := b1,
                gen_genblock2 := b2, gen_genblock3 := b3, gen_final_bn := bn',
                gen_final_conv := cv' \<rparr>,
            t_tanh out))))))))))))"

section \<open>Discriminator\<close>

subsection \<open>\<open>ResBlockDiscriminator\<close> and \<open>FirstResBlockDiscriminator\<close>\<close>

text \<open>
  Both classes own the same three convolutions and two containers, \<open>model\<close> and
  \<open>bypass\<close>, whose entries name the convolution they run.
\<close>

datatype d_layer = D_ReLU | D_Conv conv_ref | D_AvgPool2d nat nat

record disc_block =
  db_conv1 :: conv2d
  db_conv2 :: conv2d
  db_bypass_conv :: conv2d
  db_model :: "d_layer list"
  db_bypass :: "d_layer list"

definition ResBlockDiscriminator_init ::
  "init_source \<Rightarrow> nat \<Rightarrow> nat \<Rightarrow> nat \<Rightarrow> disc_block" where
  "ResBlockDiscriminator_init src in_channels out_channels stride =
     \<lparr> db_conv1 = spectral_norm_conv (sub src ''conv1'')
                    (Conv2d_init (sub src ''conv1'') in_channels out_channels 3 1 1 bias),
       db_conv2 = spectral_norm_conv (sub src ''conv2'')
                    (Conv2d_init (sub src ''conv2'') out_channels out_channels 3 1 1 bias),
       db_bypass_conv = spectral_norm_conv (sub src ''bypass_conv'')
                    (Conv2d_init (sub src ''bypass_conv'') in_channels out_channels 1 1 0 bias),
       db_model =
         (if stride = 1 then [D_ReLU, D_Conv Conv1, D_ReLU, D_Conv Conv2]
          else [D_ReLU, D_Conv Conv1, D_ReLU, D_Conv Conv2, D_AvgPool2d 2 stride]),
       db_bypass =
         (if stride \<noteq> 1 then [D_Conv BypassConv, D_AvgPool2d 2 stride]
          else [D_Conv BypassConv]) \<rparr>"

text \<open>\<open>nn.AvgPool2d(2)\<close>: the stride defaults to the kernel size.\<close>

definition FirstResBlockDiscriminator_init ::
  "init_source \<Rightarrow> nat \<Rightarrow> nat \<Rightarrow> nat \<Rightarrow> disc_block" where
  "FirstResBlockDiscriminator_init src in_channels out_channels stride =
     \<lparr> db_conv1 = spectral_norm_conv (sub src ''conv1'')
                    (Conv2d_init (sub src ''conv1'') in_channels out_channels 3 1 1 bias),
       db_conv2 = spectral_norm_conv (sub src ''conv2'')
                    (Conv2d_init (sub src ''conv2'') out_channels out_channels 3 1 1 bias),
       db_bypass_conv = spectral_norm_conv (sub src ''bypass_conv'')
                    (Conv2d_init (sub src ''bypass_conv'') in_channels out_channels 1 1 0 bias),
       db_model = [D_Conv Conv1, D_ReLU, D_Conv Conv2, D_AvgPool2d 2 2],
       db_bypass = [D_AvgPool2d 2 2, D_Conv BypassConv] \<rparr>"

fun db_conv :: "disc_block \<Rightarrow> conv_ref \<Rightarrow> conv2d" where
  "db_conv b Conv1 = db_conv1 b"
| "db_conv b Conv2 = db_conv2 b"
| "db_conv b BypassConv = db_bypass_conv b"

fun db_set_conv :: "disc_block \<Rightarrow> conv_ref \<Rightarrow> conv2d \<Rightarrow> disc_block" where
  "db_set_conv b Conv1 cv = b \<lparr> db_conv1 := cv \<rparr>"
| "db_set_conv b Conv2 cv = b \<lparr> db_conv2 := cv \<rparr>"
| "db_set_conv b BypassConv cv = b \<lparr> db_bypass_conv := cv \<rparr>"

fun db_layer :: "disc_block \<Rightarrow> d_layer \<Rightarrow> tensor \<Rightarrow> error + (disc_block \<times> tensor)" where
  "db_layer b D_ReLU x = Inr (b, relu x)"
| "db_layer b (D_Conv r) x =
     ebind (Conv2d_forward (db_conv b r) x) (\<lambda>(cv', out). Inr (db_set_conv b r cv', out))"
| "db_layer b (D_AvgPool2d k s) x = ebind (avg_pool2d k s x) (\<lambda>out. Inr (b, out))"

fun db_sequential :: "disc_block \<Rightarrow> d_layer list \<Rightarrow> tensor \<Rightarrow> error + (disc_block \<times> tensor)" where
  "db_sequential b [] x = Inr (b, x)"
| "db_sequential b (l # ls) x = ebind (db_layer b l x) (\<lambda>(b', out). db_sequential b' ls out)"

definition ResBlockDiscriminator_forward ::
  "disc_block \<Rightarrow> tensor \<Rightarrow> error + (disc_block \<times> tensor)" where
  "ResBlockDiscriminator_forward b x =
     ebind (db_sequential b (db_model b) x) (\<lambda>(b1, out).
     ebind (db_sequential b1 (db_bypass b1) x) (\<lambda>(b2, byp).
     ebind (t_add out byp) (\<lambda>res. Inr (b2, res))))"

definition FirstResBlockDiscriminator_forward ::
  "disc_block \<Rightarrow> tensor \<Rightarrow> error + (disc_block \<times> tensor)" where
  "FirstResBlockDiscriminator_forward b x =
     ebind (db_sequential b (db_model b) x) (\<lambda>(b1, out).
     ebind (db_sequential b1 (db_bypass b1) x) (\<lambda>(b2, byp).
     ebind (t_add out byp) (\<lambda>res. Inr (b2, res))))"

subsection \<open>\<open>SnganDiscriminator\<close>\<close>

text \<open>
  \<open>discblock1\<close> is the container of the first block and two further blocks,
  \<open>discblock3\<close> the container of a block and a ReLU.
  \<open>SnganDiscriminator_features\<close> is the first part of \<open>forward\<close>, the three
  calls of \<open>discblock1\<close>, \<open>discblock2\<close> and \<open>discblock3\<close>;
  \<open>SnganDiscriminator_forward\<close> continues from there.
\<close>

record discriminator =
  dis_dim_embed :: nat
  dis_disc_ch :: nat
  dis_discblock1_0 :: disc_block
  dis_discblock1_1 :: disc_block
  dis_discblock1_2 :: disc_block
  dis_discblock2 :: disc_block
  dis_discblock3_0 :: disc_block
  dis_linear1 :: linear
  dis_linear2 :: linear

definition SnganDiscriminator_init :: "init_source \<Rightarrow> nat \<Rightarrow> nat \<Rightarrow> discriminator" where
  "SnganDiscriminator_init src dim_embed disc_ch =
     \<lparr> dis_dim_embed = dim_embed,
       dis_disc_ch = disc_ch,
       dis_discblock1_0 =
         FirstResBlockDiscriminator_init (sub src ''discblock1.0'') channels disc_ch 2,
       dis_discblock1_1 =
         ResBlockDiscriminator_init (sub src ''discblock1.1'') disc_ch (disc_ch * 2) 2,
       dis_discblock1_2 =
         ResBlockDiscriminator_init (sub src ''discblock1.2'') (disc_ch * 2) (disc_ch * 4) 2,
       dis_discblock2 =
         ResBlockDiscriminator_init (sub src ''discblock2'') (disc_ch * 4) (disc_ch * 8) 2,
       dis_discblock3_0 =
         ResBlockDiscriminator_init (sub src ''discblock3.0'') (disc_ch * 8) (disc_ch * 16) 1,
       dis_linear1 = spectral_norm_linear (sub src ''linear1'')
                       (Linear_init (sub src ''linear1'') (disc_ch * 16 * 4 * 4) 1 True),
       dis_linear2 = spectral_norm_linear (sub src ''linear2'')
                       (Linear_init (sub src ''linear2'') dim_embed (disc_ch * 16 * 4 * 4) False) \<rparr>"

definition SnganDiscriminator_features ::
  "discriminator \<Rightarrow> tensor \<Rightarrow> error + (discriminator \<times> tensor)" where
  "SnganDiscriminator_features d x =
     ebind (FirstResBlockDiscriminator_forward (dis_discblock1_0 d) x) (\<lambda>(b10, out).
     ebind (ResBlockDiscriminator_forward (dis_discblock1_1 d) out) (\<lambda>(b11, out).
     ebind (ResBlockDiscriminator_forward (dis_discblock1_2 d) out) (\<lambda>(b12, out).
     ebind (ResBlockDiscriminator_forward (dis_discblock2 d) out) (\<lambda>(b2, out).
     ebind (ResBlockDiscriminator_forward (dis_discblock3_0 d) out) (\<lambda>(b30, out).
       Inr (d \<lparr> dis_discblock1_0 := b10, dis_discblock1_1 := b11, dis_discblock1_2 := b12,
                dis_discblock2 := b2, dis_discblock3_0 := b30 \<rparr>,
            relu out))))))"

definition SnganDiscriminator_forward ::
  "discriminator \<Rightarrow> tensor \<Rightarrow> tensor \<Rightarrow> error + (discriminator \<times> tensor)" where
  "SnganDiscriminator_forward d x h =
     ebind (SnganDiscriminator_features d x) (\<lambda>(d1, out).
     ebind (view out [- 1, int (dis_disc_ch d1 * 16 * 4 * 4)]) (\<lambda>output.
     ebind (Linear_forward (dis_linear2 d1) h) (\<lambda>(l2, hp).
     ebind (t_mul output hp) (\<lambda>prod.
     ebind (sum_dim1 prod) (\<lambda>output_h.
     ebind (Linear_forward (dis_linear1 d1) output) (\<lambda>(l1, lo).
     ebind (t_add lo output_h) (\<lambda>output.
     ebind (view output [- 1, 1]) (\<lambda>res.
       Inr (d1 \<lparr> dis_linear1 := l1, dis_linear2 := l2 \<rparr>, res)))))))))"

section \<open>Modules of the expected sizes\<close>

text \<open>
  The sizes a module's parameters have after construction (and keep under training):
  the predicates below say which sizes, and for the residual blocks which entries their
  containers hold.
\<close>

definition wf_bias :: "tensor option \<Rightarrow> nat \<Rightarrow> bool" where
  "wf_bias b n = (case b of None \<Rightarrow> True | Some bt \<Rightarrow> shape bt = [n])"

definition wf_conv :: "conv2d \<Rightarrow> nat \<Rightarrow> nat \<Rightarrow> nat \<Rightarrow> nat \<Rightarrow> bool" where
  "wf_conv cv cin cout k pad \<longleftrightarrow>
     shape (cv_weight cv) = [cout, cin, k, k] \<and> wf_bias (cv_bias cv) cout \<and>
     cv_stride cv = 1 \<and> cv_padding cv = pad"

definition wf_linear :: "linear \<Rightarrow> nat \<Rightarrow> nat \<Rightarrow> bool" where
  "wf_linear lin fin fout \<longleftrightarrow>
     shape (ln_weight lin) = [fout, fin] \<and> wf_bias (ln_bias lin) fout"

definition wf_bn :: "batchnorm \<Rightarrow> nat \<Rightarrow> bool" where
  "wf_bn bn nf \<longleftrightarrow> bn_num_features bn = nf"

definition wf_cbn :: "cond_bn \<Rightarrow> nat \<Rightarrow> nat \<Rightarrow> bool" where
  "wf_cbn m nf de \<longleftrightarrow>
     cbn_num_features m = nf \<and> wf_bn (cbn_bn m) nf \<and> bn_affine (cbn_bn m) = None \<and>
     wf_linear (cbn_embed_gamma m) de nf \<and> ln_bias (cbn_embed_gamma m) = None \<and>
     ln_sn (cbn_embed_gamma m) = None \<and>
     wf_linear (cbn_embed_beta m) de nf \<and> ln_bias (cbn_embed_beta m) = None \<and>
     ln_sn (cbn_embed_beta m) = None"

definition wf_gen_block :: "gen_block \<Rightarrow> nat \<Rightarrow> nat \<Rightarrow> nat \<Rightarrow> bool" where
  "wf_gen_block b cin cout de \<longleftrightarrow>
     wf_conv (gb_conv1 b) cin cout 3 1 \<and> wf_conv (gb_conv2 b) cout cout 3 1 \<and>
     wf_conv (gb_bypass_conv b) cin cout 1 0 \<and>
     wf_cbn (gb_condgn1 b) cin de \<and> wf_cbn (gb_condgn2 b) cout de \<and>
     wf_bn (gb_model_bn0 b) cin \<and> wf_bn (gb_model_bn4 b) cout \<and>
     gb_model b = [G_BatchNorm2d ModelBN0, G_ReLU, G_Upsample 2, G_Conv Conv1,
                   G_BatchNorm2d ModelBN4, G_ReLU, G_Conv Conv2] \<and>
     gb_bypass b = [G_Upsample 2, G_Conv BypassConv]"

definition wf_generator :: "generator \<Rightarrow> nat \<Rightarrow> nat \<Rightarrow> nat \<Rightarrow> bool" where
  "wf_generator g nz de ch \<longleftrightarrow>
     gen_z_dim g = nz \<and> gen_dim_embed g = de \<and> gen_gen_ch g = ch \<and>
     wf_linear (gen_dense g) nz (4 * 4 * ch * 16) \<and>
     wf_gen_block (gen_genblock0 g) (ch * 16) (ch * 8) de \<and>
     wf_gen_block (gen_genblock1 g) (ch * 8) (ch * 4) de \<and>
     wf_gen_block (gen_genblock2 g) (ch * 4) (ch * 2) de \<and>
     wf_gen_block (gen_genblock3 g) (ch * 2) ch de \<and>
     wf_bn (gen_final_bn g) ch \<and> wf_conv (gen_final_conv g) ch 3 3 1"

definition wf_sn_conv :: "conv2d \<Rightarrow> nat \<Rightarrow> nat \<Rightarrow> nat \<Rightarrow> nat \<Rightarrow> bool" where
  "wf_sn_conv cv cin cout k pad \<longleftrightarrow> wf_conv cv cin cout k pad \<and> cv_sn cv \<noteq> None"

definition wf_disc_convs :: "disc_block \<Rightarrow> nat \<Rightarrow> nat \<Rightarrow> bool" where
  "wf_disc_convs b cin cout \<longleftrightarrow>
     wf_sn_conv (db_conv1 b) cin cout 3 1 \<and> wf_sn_conv (db_conv2 b) cout cout 3 1 \<and>
     wf_sn_conv (db_bypass_conv b) cin cout 1 0"

definition wf_res_block :: "disc_block \<Rightarrow> nat \<Rightarrow> nat \<Rightarrow> nat \<Rightarrow> bool" where
  "wf_res_block b cin cout stride \<longleftrightarrow>
     wf_disc_convs b cin cout \<and>
     db_model b =
       (if stride = 1 then [D_ReLU, D_Conv Conv1, D_ReLU, D_Conv Conv2]
        else [D_ReLU, D_Conv Conv1, D_ReLU, D_Conv Conv2, D_AvgPool2d 2 stride]) \<and>
     db_bypass b =
       (if stride \<noteq> 1 then [D_Conv BypassConv, D_AvgPool2d 2 stride]
        else [D_Conv BypassConv])"

definition wf_first_block :: "disc_block \<Rightarrow> nat \<Rightarrow> nat \<Rightarrow> bool" where
  "wf_first_block b cin cout \<longleftrightarrow>
     wf_disc_convs b cin cout \<and>
     db_model b = [D_Conv Conv1, D_ReLU, D_Conv Conv2, D_AvgPool2d 2 2] \<and>
     db_bypass b = [D_AvgPool2d 2 2, D_Conv BypassConv]"

definition wf_discriminator :: "discriminator \<Rightarrow> nat \<Rightarrow> nat \<Rightarrow> bool" where
  "wf_discriminator d de ch \<longleftrightarrow>
     dis_dim_embed d = de \<and> dis_disc_ch d = ch \<and>
     wf_first_block (dis_discblock1_0 d) channels ch \<and>
     wf_res_block (dis_discblock1_1 d) ch (ch * 2) 2 \<and>
     wf_res_block (dis_discblock1_2 d) (ch * 2) (ch * 4) 2 \<and>
     wf_res_block (dis_discblock2 d) (ch * 4) (ch * 8) 2 \<and>
     wf_res_block (dis_discblock3_0 d) (ch * 8) (ch * 16) 1 \<and>
     wf_linear (dis_linear1 d) (ch * 16 * 4 * 4) 1 \<and> ln_sn (dis_linear1 d) \<noteq> None \<and>
     wf_linear (dis_linear2 d) de (ch * 16 * 4 * 4) \<and> ln_sn (dis_linear2 d) \<noteq> None \<and>
     ln_bias (dis_linear2 d) = None"

text \<open>
  \<open>returns r Q s\<close>: the call returned, the module it leaves satisfies \<open>Q\<close>, and the
  tensor it returned has shape \<open>s\<close> with as many entries as \<open>s\<close> asks for.
\<close>

definition returns ::
  "error + ('s \<times> 'a tensor_of) \<Rightarrow> ('s \<Rightarrow> bool) \<Rightarrow> nat list \<Rightarrow> bool" where
  "returns r Q s = (\<exists>st t. r = Inr (st, t) \<and> Q st \<and> shape t = s \<and> wf_tensor t)"

section \<open>The two paths of the generator block, as the specification words them\<close>

text \<open>
  Unconditional: plain batch-norm, activate, upsample, convolve, norm, activate, convolve,
  summed with the bypass (upsample, 1x1 convolve). Conditional: the same with the two
  conditional normalisations in place of the plain ones. Both are written over the
  block's own three convolutions.
\<close>

definition unconditional_path :: "gen_block \<Rightarrow> tensor \<Rightarrow> error + (gen_block \<times> tensor)" where
  "unconditional_path b x =
     ebind (BatchNorm2d_forward (gb_model_bn0 b) x) (\<lambda>(bn0, t).
     ebind (upsample 2 (relu t)) (\<lambda>t.
     ebind (Conv2d_forward (gb_conv1 b) t) (\<lambda>(cv1, t).
     ebind (BatchNorm2d_forward (gb_model_bn4 b) t) (\<lambda>(bn4, t).
     ebind (Conv2d_forward (gb_conv2 b) (relu t)) (\<lambda>(cv2, main).
     ebind (upsample 2 x) (\<lambda>u.
     ebind (Conv2d_forward (gb_bypass_conv b) u) (\<lambda>(cvb, byp).
     ebind (t_add main byp) (\<lambda>res.
       Inr (b \<lparr> gb_conv1 := cv1, gb_conv2 := cv2, gb_model_bn0 := bn0, gb_model_bn4 := bn4,
                gb_bypass_conv := cvb \<rparr>, res)))))))))"

definition conditional_path ::
  "gen_block \<Rightarrow> tensor \<Rightarrow> tensor \<Rightarrow> error + (gen_block \<times> tensor)" where
  "conditional_path b x h =
     ebind (ConditionalBatchNorm2d_forward (gb_condgn1 b) x h) (\<lambda>(c1, t).
     ebind (upsample 2 (relu t)) (\<lambda>t.
     ebind (Conv2d_forward (gb_conv1 b) t) (\<lambda>(cv1, t).
     ebind (ConditionalBatchNorm2d_forward (gb_condgn2 b) t h) (\<lambda>(c2, t).
     ebind (Conv2d_forward (gb_conv2 b) (relu t)) (\<lambda>(cv2, main).
     ebind (upsample 2 x) (\<lambda>u.
     ebind (Conv2d_forward (gb_bypass_conv b) u) (\<lambda>(cvb, byp).
     ebind (t_add main byp) (\<lambda>res.
       Inr (b \<lparr> gb_conv1 := cv1, gb_conv2 := cv2, gb_condgn1 := c1, gb_condgn2 := c2,
                gb_bypass_conv := cvb \<rparr>, res)))))))))"

text \<open>The tensor a call returns, or the error it raised, without the module it leaves.\<close>

definition result_tensor :: "error + ('s \<times> 'a tensor_of) \<Rightarrow> error + 'a tensor_of" where
  "result_tensor r = (case r of Inl e \<Rightarrow> Inl e | Inr (st, t) \<Rightarrow> Inr t)"

text \<open>The shape of the tensor a call returns, or the error it raised.\<close>

definition result_shape :: "error + ('s \<times> 'a tensor_of) \<Rightarrow> error + nat list" where
  "result_shape r = (case r of Inl e \<Rightarrow> Inl e | Inr (st, t) \<Rightarrow> Inr (shape t))"

section \<open>The first discriminator block, as the specification words it\<close>

text \<open>
  No activation before the first convolution; on the main path the 2x2 average pooling
  comes after the two convolutions, on the bypass path before the 1x1 convolution.
\<close>

definition first_block_path :: "disc_block \<Rightarrow> tensor \<Rightarrow> error + (disc_block \<times> tensor)" where
  "first_block_path b x =
     ebind (Conv2d_forward (db_conv1 b) x) (\<lambda>(cv1, t).
     ebind (Conv2d_forward (db_conv2 b) (relu t)) (\<lambda>(cv2, t).
     ebind (avg_pool2d 2 2 t) (\<lambda>main.
     ebind (avg_pool2d 2 2 x) (\<lambda>p.
     ebind (Conv2d_forward (db_bypass_conv b) p) (\<lambda>(cvb, byp).
     ebind (t_add main byp) (\<lambda>res.
       Inr (b \<lparr> db_conv1 := cv1, db_conv2 := cv2, db_bypass_conv := cvb \<rparr>, res)))))))"

section \<open>What the discriminator returns on an image of any size\<close>

text \<open>
  On \<open>N\<close> images of \<open>H \<times> W\<close> pixels the five blocks leave \<open>N\<close> maps of
  \<open>H div 16\<close> by \<open>W div 16\<close> entries per channel; \<open>view(-1, disc_ch*16*4*4)\<close> cuts them
  into rows of sixteen such entries per channel, and the rows are broadcast against the
  \<open>N\<close> rows of the projected embedding.
\<close>

definition flattened_rows :: "nat \<Rightarrow> nat \<Rightarrow> nat \<Rightarrow> nat" where
  "flattened_rows N H W = (N * (H div 16) * (W div 16)) div 16"

definition disc_result_shape :: "nat \<Rightarrow> nat \<Rightarrow> nat \<Rightarrow> error + nat list" where
  "disc_result_shape N H W =
     (if H < 16 \<or> W < 16 then Inl RuntimeError
      else if (N * (H div 16) * (W div 16)) mod 16 \<noteq> 0 then Inl RuntimeError
      else if flattened_rows N H W = N \<or> flattened_rows N H W = 1 \<or> N = 1
        then Inr [max (flattened_rows N H W) N, 1]
      else Inl RuntimeError)"

text \<open>The statistics a batch normalisation normalises with: those of the batch in training
  mode, the running ones in evaluation mode.\<close>

definition bn_mu :: "batchnorm \<Rightarrow> tensor \<Rightarrow> nat \<Rightarrow> real" where
  "bn_mu bn x c = (if bn_training bn then chan_mean x c else bn_running_mean bn ! c)"

definition bn_sigma2 :: "batchnorm \<Rightarrow> tensor \<Rightarrow> nat \<Rightarrow> real" where
  "bn_sigma2 bn x c = (if bn_training bn then chan_var x c else bn_running_var bn ! c)"

text \<open>The weight a spectrally normalised layer computes with in one forward call.\<close>

definition spectral_normalized :: "bool \<Rightarrow> tensor \<Rightarrow> spectral \<Rightarrow> tensor" where
  "spectral_normalized training W st = sn_weight W (sn_step training W st)"

section \<open>Shapes through the library layers\<close>

lemma shape_tabulate [simp]: "shape (tabulate s f) = s"
  by (simp add: tabulate_def)

lemma wf_tabulate [simp]: "wf_tensor (tabulate s f)"
  by (simp add: tabulate_def wf_tensor_def)

lemma data_tabulate: "i < prod_list s \<Longrightarrow> data (tabulate s f) ! i = f i"
  by (simp add: tabulate_def)

lemma shape_relu [simp]: "shape (relu t) = shape t"
  by (simp add: relu_def)

lemma wf_relu [simp]: "wf_tensor (relu t) = wf_tensor t"
  by (simp add: relu_def wf_tensor_def)

lemma shape_tanh [simp]: "shape (t_tanh t) = shape t"
  by (simp add: t_tanh_def)

lemma wf_tanh [simp]: "wf_tensor (t_tanh t) = wf_tensor t"
  by (simp add: t_tanh_def wf_tensor_def)

lemma shape_effective_weight: "shape (snd (effective_weight tr W sn)) = shape W"
  by (simp add: effective_weight_def sn_weight_def Let_def split: option.splits)

lemma effective_weight_sn_None:
  "(fst (effective_weight tr W sn) = None) = (sn = None)"
  by (simp add: effective_weight_def Let_def split: option.splits)

lemma F_conv2d_shape:
  assumes "shape x = [N, cin, H, Wd]" "shape W = [cout, cin, k, k]" "wf_bias b cout"
    "k \<le> H + 2 * pad" "k \<le> Wd + 2 * pad"
  shows "\<exists>t. F_conv2d x W b 1 pad = Inr t \<and>
     shape t = [N, cout, H + 2 * pad - k + 1, Wd + 2 * pad - k + 1] \<and> wf_tensor t"
  using assms by (auto simp: F_conv2d_def Let_def wf_bias_def split: option.splits)

lemma Conv2d_forward_returns:
  assumes "wf_conv cv cin cout k pad" "shape x = [N, cin, H, Wd]"
    "k \<le> H + 2 * pad" "k \<le> Wd + 2 * pad"
  shows "returns (Conv2d_forward cv x)
           (\<lambda>cv'. wf_conv cv' cin cout k pad \<and> (cv_sn cv' = None) = (cv_sn cv = None))
           [N, cout, H + 2 * pad - k + 1, Wd + 2 * pad - k + 1]"
proof -
  obtain sn' W where ew: "effective_weight (cv_training cv) (cv_weight cv) (cv_sn cv) = (sn', W)"
    by (cases "effective_weight (cv_training cv) (cv_weight cv) (cv_sn cv)")
  have "shape W = [cout, cin, k, k]"
    using shape_effective_weight [of "cv_training cv" "cv_weight cv" "cv_sn cv"] ew assms(1)
    by (simp add: wf_conv_def)
  from F_conv2d_shape [OF assms(2) this _ assms(3,4), of "cv_bias cv"] assms(1)
  obtain t where "F_conv2d x W (cv_bias cv) 1 pad = Inr t"
    "shape t = [N, cout, H + 2 * pad - k + 1, Wd + 2 * pad - k + 1]" "wf_tensor t"
    by (auto simp: wf_conv_def)
  moreover have "(sn' = None) = (cv_sn cv = None)"
    using effective_weight_sn_None [of "cv_training cv" "cv_weight cv" "cv_sn cv"] ew by simp
  ultimately show ?thesis
    using ew assms(1) by (auto simp: Conv2d_forward_def wf_conv_def returns_def)
qed

lemma F_linear_shape:
  assumes "shape x = [N, fin]" "shape W = [fout, fin]" "wf_bias b fout"
  shows "\<exists>t. F_linear x W b = Inr t \<and> shape t = [N, fout] \<and> wf_tensor t"
  using assms by (auto simp: F_linear_def Let_def wf_bias_def split: option.splits)

lemma Linear_forward_returns:
  assumes "wf_linear lin fin fout" "shape x = [N, fin]"
  shows "returns (Linear_forward lin x)
           (\<lambda>l'. wf_linear l' fin fout \<and> ln_bias l' = ln_bias lin \<and>
                 (ln_sn l' = None) = (ln_sn lin = None))
           [N, fout]"
proof -
  obtain sn' W where ew: "effective_weight (ln_training lin) (ln_weight lin) (ln_sn lin) = (sn', W)"
    by (cases "effective_weight (ln_training lin) (ln_weight lin) (ln_sn lin)")
  have "shape W = [fout, fin]"
    using shape_effective_weight [of "ln_training lin" "ln_weight lin" "ln_sn lin"] ew assms(1)
    by (simp add: wf_linear_def)
  from F_linear_shape [OF assms(2) this, of "ln_bias lin"] assms(1)
  obtain t where "F_linear x W (ln_bias lin) = Inr t" "shape t = [N, fout]" "wf_tensor t"
    by (auto simp: wf_linear_def)
  moreover have "(sn' = None) = (ln_sn lin = None)"
    using effective_weight_sn_None [of "ln_training lin" "ln_weight lin" "ln_sn lin"] ew by simp
  ultimately show ?thesis
    using ew assms(1) by (auto simp: Linear_forward_def wf_linear_def returns_def)
qed

lemma upsample_shape:
  "shape x = [N, C, H, Wd] \<Longrightarrow>
   \<exists>t. upsample 2 x = Inr t \<and> shape t = [N, C, H * 2, Wd * 2] \<and> wf_tensor t"
  by (simp add: upsample_def Let_def)

lemma avg_pool2d_shape:
  "shape x = [N, C, H, Wd] \<Longrightarrow> 2 \<le> H \<Longrightarrow> 2 \<le> Wd \<Longrightarrow>
   \<exists>t. avg_pool2d 2 2 x = Inr t \<and> shape t = [N, C, H div 2, Wd div 2] \<and> wf_tensor t"
  by (auto simp: avg_pool2d_def Let_def)

lemma avg_pool2d_small:
  "shape x = [N, C, H, Wd] \<Longrightarrow> H < 2 \<or> Wd < 2 \<Longrightarrow> avg_pool2d 2 s x = Inl RuntimeError"
  by (auto simp: avg_pool2d_def Let_def)

lemma BatchNorm2d_forward_returns:
  assumes "wf_bn bn C" "shape x = [N, C, H, Wd]" "N * H * Wd \<noteq> 1" "wf_tensor x"
  shows "returns (BatchNorm2d_forward bn x)
           (\<lambda>bn'. wf_bn bn' C \<and> bn_affine bn' = bn_affine bn) [N, C, H, Wd]"
  using assms
  by (auto simp: BatchNorm2d_forward_def Let_def returns_def bn_apply_def wf_tensor_def wf_bn_def)

lemma bshape_same: "bshape s s = Some s"
  by (induction s) auto

lemma bidx_same: "i < prod_list s \<Longrightarrow> bidx s s i = i"
proof (induction s arbitrary: i)
  case Nil
  then show ?case by simp
next
  case (Cons d ds)
  have pos: "0 < prod_list ds" using Cons.prems by (cases "prod_list ds = 0") auto
  have "i mod prod_list ds < prod_list ds" using pos by simp
  then have ih: "bidx ds ds (i mod prod_list ds) = i mod prod_list ds" by (rule Cons.IH)
  show ?case
  proof (cases "d = 1")
    case True
    then have "i div prod_list ds = 0" using Cons.prems by simp
    then show ?thesis using ih True Cons.prems by simp
  next
    case False
    then show ?thesis using ih by simp
  qed
qed

lemma broadcast2_eq_rank:
  "length (shape x) = length (shape y) \<Longrightarrow>
   broadcast2 f x y =
     (case bshape (shape x) (shape y) of
        None \<Rightarrow> Inl RuntimeError
      | Some s \<Rightarrow> Inr (tabulate s (\<lambda>i. f (data x ! bidx s (shape x) i) (data y ! bidx s (shape y) i))))"
  by (simp add: broadcast2_def pad_shape_def Let_def split: option.splits)

lemma broadcast2_same:
  "shape x = s \<Longrightarrow> shape y = s \<Longrightarrow>
   broadcast2 f x y = Inr (tabulate s (\<lambda>i. f (data x ! bidx s s i) (data y ! bidx s s i)))"
  by (simp add: broadcast2_eq_rank bshape_same)

lemma bshape_chan: "bshape [N, C, H, Wd] [N, C, 1, 1] = Some [N, C, H, Wd]"
  by simp

lemma broadcast2_chan:
  assumes "shape x = [N, C, H, Wd]" "shape y = [N, C, 1, 1]"
  shows "broadcast2 f x y = Inr (tabulate [N, C, H, Wd]
      (\<lambda>i. f (data x ! bidx [N, C, H, Wd] [N, C, H, Wd] i) (data y ! bidx [N, C, H, Wd] [N, C, 1, 1] i)))"
proof -
  have "length (shape x) = length (shape y)" using assms by simp
  from broadcast2_eq_rank [OF this, of f] show ?thesis
    unfolding assms bshape_chan by simp
qed

lemma t_add_same_shape:
  "shape x = s \<Longrightarrow> shape y = s \<Longrightarrow> \<exists>t. t_add x y = Inr t \<and> shape t = s \<and> wf_tensor t"
  by (simp add: t_add_def broadcast2_same)

lemma view_chan:
  "0 < C \<Longrightarrow> shape g = [N, C] \<Longrightarrow> view g [- 1, int C, 1, 1] = Inr (Tensor [N, C, 1, 1] (data g))"
  by (simp add: view_def Let_def numel_def)

lemma ConditionalBatchNorm2d_forward_returns:
  assumes m: "wf_cbn m C de" and x: "shape x = [N, C, H, Wd]" "wf_tensor x" "N * H * Wd \<noteq> 1"
    and y: "shape y = [N, de]" and C: "0 < C"
  shows "returns (ConditionalBatchNorm2d_forward m x y) (\<lambda>m'. wf_cbn m' C de) [N, C, H, Wd]"
proof -
  from m have nf: "cbn_num_features m = C" and bn: "wf_bn (cbn_bn m) C"
    and lg: "wf_linear (cbn_embed_gamma m) de C" and lb: "wf_linear (cbn_embed_beta m) de C"
    by (simp_all add: wf_cbn_def)
  obtain bn' out where 1: "BatchNorm2d_forward (cbn_bn m) x = Inr (bn', out)"
    and out: "shape out = [N, C, H, Wd]" and bn': "wf_bn bn' C" "bn_affine bn' = bn_affine (cbn_bn m)"
    using BatchNorm2d_forward_returns [OF bn x(1) x(3) x(2)] by (auto simp: returns_def)
  obtain eg' g where 2: "Linear_forward (cbn_embed_gamma m) y = Inr (eg', g)"
    and g: "shape g = [N, C]" and eg': "wf_linear eg' de C" "ln_bias eg' = ln_bias (cbn_embed_gamma m)"
      "(ln_sn eg' = None) = (ln_sn (cbn_embed_gamma m) = None)"
    using Linear_forward_returns [OF lg y] by (auto simp: returns_def)
  obtain eb' b where 3: "Linear_forward (cbn_embed_beta m) y = Inr (eb', b)"
    and b: "shape b = [N, C]" and eb': "wf_linear eb' de C" "ln_bias eb' = ln_bias (cbn_embed_beta m)"
      "(ln_sn eb' = None) = (ln_sn (cbn_embed_beta m) = None)"
    using Linear_forward_returns [OF lb y] by (auto simp: returns_def)
  have wf': "wf_cbn (m \<lparr> cbn_bn := bn', cbn_embed_gamma := eg', cbn_embed_beta := eb' \<rparr>) C de"
    using m bn' eg' eb' by (simp add: wf_cbn_def)
  show ?thesis
    unfolding ConditionalBatchNorm2d_forward_def
    using 1 2 3 view_chan [OF C g] view_chan [OF C b] nf out wf'
    by (simp add: t_mul_def t_add_def broadcast2_chan broadcast2_same returns_def)
qed


lemma gb_bypass_returns:
  assumes wf: "wf_gen_block b cin cout de" and x: "shape x = [N, cin, H, Wd]"
    and pos: "1 \<le> H" "1 \<le> Wd"
  shows "returns (gb_sequential b (gb_bypass b) x) (\<lambda>b'. wf_gen_block b' cin cout de)
           [N, cout, H * 2, Wd * 2]"
proof -
  from wf have byp: "gb_bypass b = [G_Upsample 2, G_Conv BypassConv]"
    and cb: "wf_conv (gb_bypass_conv b) cin cout 1 0"
    by (simp_all add: wf_gen_block_def)
  obtain t1 where 1: "upsample 2 x = Inr t1" and t1: "shape t1 = [N, cin, H * 2, Wd * 2]"
    using upsample_shape [OF x] by auto
  obtain cv t2 where 2: "Conv2d_forward (gb_bypass_conv b) t1 = Inr (cv, t2)"
    and t2: "shape t2 = [N, cout, H * 2, Wd * 2]" "wf_tensor t2" and cv: "wf_conv cv cin cout 1 0"
    using Conv2d_forward_returns [OF cb t1] pos by (auto simp: returns_def)
  show ?thesis
    using wf cv t2 by (simp add: byp 1 2 returns_def wf_gen_block_def)
qed

lemma gb_model_returns:
  assumes wf: "wf_gen_block b cin cout de" and x: "shape x = [N, cin, H, Wd]" "wf_tensor x"
    and one: "N * H * Wd \<noteq> 1" and pos: "1 \<le> H" "1 \<le> Wd"
  shows "returns (gb_sequential b (gb_model b) x) (\<lambda>b'. wf_gen_block b' cin cout de)
           [N, cout, H * 2, Wd * 2]"
proof -
  from wf have model: "gb_model b = [G_BatchNorm2d ModelBN0, G_ReLU, G_Upsample 2, G_Conv Conv1,
                   G_BatchNorm2d ModelBN4, G_ReLU, G_Conv Conv2]"
    and c1: "wf_conv (gb_conv1 b) cin cout 3 1" and c2: "wf_conv (gb_conv2 b) cout cout 3 1"
    and b0: "wf_bn (gb_model_bn0 b) cin" and b4: "wf_bn (gb_model_bn4 b) cout"
    by (simp_all add: wf_gen_block_def)
  obtain bn0 t1 where 1: "BatchNorm2d_forward (gb_model_bn0 b) x = Inr (bn0, t1)"
    and t1: "shape t1 = [N, cin, H, Wd]" and bn0: "wf_bn bn0 cin"
    using BatchNorm2d_forward_returns [OF b0 x(1) one x(2)] by (auto simp: returns_def)
  have "shape (relu t1) = [N, cin, H, Wd]" using t1 by simp
  from upsample_shape [OF this]
  obtain t3 where 3: "upsample 2 (relu t1) = Inr t3" and t3: "shape t3 = [N, cin, H * 2, Wd * 2]"
    by auto
  obtain cv1 t4 where 4: "Conv2d_forward (gb_conv1 b) t3 = Inr (cv1, t4)"
    and t4: "shape t4 = [N, cout, H * 2, Wd * 2]" "wf_tensor t4" and cv1: "wf_conv cv1 cin cout 3 1"
    using Conv2d_forward_returns [OF c1 t3] pos by (auto simp: returns_def)
  have "N * (H * 2) * (Wd * 2) \<noteq> 1" by simp
  from BatchNorm2d_forward_returns [OF b4 t4(1) this t4(2)]
  obtain bn4 t5 where 5: "BatchNorm2d_forward (gb_model_bn4 b) t4 = Inr (bn4, t5)"
    and t5: "shape t5 = [N, cout, H * 2, Wd * 2]" and bn4: "wf_bn bn4 cout"
    by (auto simp: returns_def)
  have "shape (relu t5) = [N, cout, H * 2, Wd * 2]" using t5 by simp
  from Conv2d_forward_returns [OF c2 this]
  obtain cv2 t7 where 7: "Conv2d_forward (gb_conv2 b) (relu t5) = Inr (cv2, t7)"
    and t7: "shape t7 = [N, cout, H * 2, Wd * 2]" "wf_tensor t7" and cv2: "wf_conv cv2 cout cout 3 1"
    using pos by (auto simp: returns_def)
  show ?thesis
    using wf bn0 cv1 bn4 cv2 t7 by (simp add: model 1 3 4 5 7 returns_def wf_gen_block_def)
qed

lemma ResBlockGenerator_forward_None_returns:
  assumes wf: "wf_gen_block b cin cout de" and x: "shape x = [N, cin, H, Wd]" "wf_tensor x"
    and one: "N * H * Wd \<noteq> 1" and pos: "1 \<le> H" "1 \<le> Wd"
  shows "returns (ResBlockGenerator_forward b x None) (\<lambda>b'. wf_gen_block b' cin cout de)
           [N, cout, H * 2, Wd * 2]"
proof -
  obtain b1 out where 1: "gb_sequential b (gb_model b) x = Inr (b1, out)"
    and b1: "wf_gen_block b1 cin cout de" and out: "shape out = [N, cout, H * 2, Wd * 2]"
    using gb_model_returns [OF wf x one pos] by (auto simp: returns_def)
  obtain b2 byp where 2: "gb_sequential b1 (gb_bypass b1) x = Inr (b2, byp)"
    and b2: "wf_gen_block b2 cin cout de" and byp: "shape byp = [N, cout, H * 2, Wd * 2]"
    using gb_bypass_returns [OF b1 x(1) pos] by (auto simp: returns_def)
  obtain res where 3: "t_add out byp = Inr res" "shape res = [N, cout, H * 2, Wd * 2]" "wf_tensor res"
    using t_add_same_shape [OF out byp] by auto
  show ?thesis
    using b2 3 by (simp add: ResBlockGenerator_forward_def 1 2 returns_def)
qed

lemma ResBlockGenerator_forward_Some_returns:
  assumes wf: "wf_gen_block b cin cout de" and x: "shape x = [N, cin, H, Wd]" "wf_tensor x"
    and one: "N * H * Wd \<noteq> 1" and pos: "1 \<le> H" "1 \<le> Wd"
    and h: "shape h = [N, de]" and ch: "0 < cin" "0 < cout"
  shows "returns (ResBlockGenerator_forward b x (Some h)) (\<lambda>b'. wf_gen_block b' cin cout de)
           [N, cout, H * 2, Wd * 2]"
proof -
  from wf have byp: "gb_bypass b = [G_Upsample 2, G_Conv BypassConv]"
    and c1: "wf_conv (gb_conv1 b) cin cout 3 1" and c2: "wf_conv (gb_conv2 b) cout cout 3 1"
    and g1: "wf_cbn (gb_condgn1 b) cin de" and g2: "wf_cbn (gb_condgn2 b) cout de"
    by (simp_all add: wf_gen_block_def)
  obtain cn1 t1 where 1: "ConditionalBatchNorm2d_forward (gb_condgn1 b) x h = Inr (cn1, t1)"
    and t1: "shape t1 = [N, cin, H, Wd]" and cn1: "wf_cbn cn1 cin de"
    using ConditionalBatchNorm2d_forward_returns [OF g1 x one h ch(1)] by (auto simp: returns_def)
  have "shape (relu t1) = [N, cin, H, Wd]" using t1 by simp
  from upsample_shape [OF this]
  obtain t3 where 3: "upsample 2 (relu t1) = Inr t3" and t3: "shape t3 = [N, cin, H * 2, Wd * 2]"
    by auto
  obtain cv1 t4 where 4: "Conv2d_forward (gb_conv1 b) t3 = Inr (cv1, t4)"
    and t4: "shape t4 = [N, cout, H * 2, Wd * 2]" "wf_tensor t4" and cv1: "wf_conv cv1 cin cout 3 1"
    using Conv2d_forward_returns [OF c1 t3] pos by (auto simp: returns_def)
  have "N * (H * 2) * (Wd * 2) \<noteq> 1" by simp
  from ConditionalBatchNorm2d_forward_returns [OF g2 t4 this h ch(2)]
  obtain cn2 t5 where 5: "ConditionalBatchNorm2d_forward (gb_condgn2 b) t4 h = Inr (cn2, t5)"
    and t5: "shape t5 = [N, cout, H * 2, Wd * 2]" and cn2: "wf_cbn cn2 cout de"
    by (auto simp: returns_def)
  have "shape (relu t5) = [N, cout, H * 2, Wd * 2]" using t5 by simp
  from Conv2d_forward_returns [OF c2 this]
  obtain cv2 t7 where 7: "Conv2d_forward (gb_conv2 b) (relu t5) = Inr (cv2, t7)"
    and t7: "shape t7 = [N, cout, H * 2, Wd * 2]" and cv2: "wf_conv cv2 cout cout 3 1"
    using pos by (auto simp: returns_def)
  let ?b = "b \<lparr> gb_conv1 := cv1, gb_conv2 := cv2, gb_condgn1 := cn1, gb_condgn2 := cn2 \<rparr>"
  have wfb: "wf_gen_block ?b cin cout de"
    using wf cv1 cv2 cn1 cn2 by (simp add: wf_gen_block_def)
  have "gb_bypass ?b = gb_bypass b" by simp
  with gb_bypass_returns [OF wfb x(1) pos]
  obtain b2 bp where 8: "gb_sequential ?b (gb_bypass b) x = Inr (b2, bp)"
    and b2: "wf_gen_block b2 cin cout de" and bp: "shape bp = [N, cout, H * 2, Wd * 2]"
    by (auto simp: returns_def)
  obtain res where 9: "t_add t7 bp = Inr res" "shape res = [N, cout, H * 2, Wd * 2]" "wf_tensor res"
    using t_add_same_shape [OF t7 bp] by auto
  show ?thesis
    using b2 9 by (simp add: ResBlockGenerator_forward_def 1 3 4 5 7 8 returns_def)
qed

section \<open>Shapes through the generator\<close>

lemma ebind_eq_Inr: "(ebind m f = Inr r) = (\<exists>v. m = Inr v \<and> f v = Inr r)"
  by (cases m) auto

lemma view_flat2:
  "shape z = [a, b] \<Longrightarrow> view z [int a, int b] = Inr (Tensor [a, b] (data z))"
  by (simp add: view_def Let_def numel_def nat_mult_distrib)

lemma view_grid:
  assumes "0 < ch" "shape t = [N, 4 * 4 * ch * 16]"
  shows "view t [- 1, int (ch * 16), 4, 4] = Inr (Tensor [N, ch * 16, 4, 4] (data t))"
proof -
  have p: "nat (int (ch * 16) * 16) = ch * 256" by (simp add: nat_mult_distrib)
  have n: "numel t = N * (ch * 256)" using assms(2) by (simp add: numel_def)
  show ?thesis
    using assms(1) by (simp add: view_def Let_def n p del: of_nat_mult)
qed




subsection \<open>Constructed modules have the expected sizes\<close>

lemma wf_Conv2d_init:
  "stride = 1 \<Longrightarrow> wf_conv (Conv2d_init src cin cout k stride pad wb) cin cout k pad"
  by (simp add: Conv2d_init_def wf_conv_def wf_bias_def)

lemma wf_Linear_init: "wf_linear (Linear_init src fin fout wb) fin fout"
  by (simp add: Linear_init_def wf_linear_def wf_bias_def)

lemma wf_BatchNorm2d_init: "wf_bn (BatchNorm2d_init nf a) nf"
  by (simp add: BatchNorm2d_init_def wf_bn_def)

lemma wf_ConditionalBatchNorm2d_init: "wf_cbn (ConditionalBatchNorm2d_init src nf de) nf de"
  by (simp add: ConditionalBatchNorm2d_init_def wf_cbn_def wf_Linear_init wf_BatchNorm2d_init)
     (simp add: Linear_init_def BatchNorm2d_init_def)

lemma wf_ResBlockGenerator_init:
  "wf_gen_block (ResBlockGenerator_init src cin cout de wb) cin cout de"
  by (simp add: ResBlockGenerator_init_def wf_gen_block_def wf_Conv2d_init
      wf_ConditionalBatchNorm2d_init wf_BatchNorm2d_init)

lemma wf_SnganGenerator_init: "wf_generator (SnganGenerator_init src nz de ch) nz de ch"
  by (simp add: SnganGenerator_init_def wf_generator_def wf_Linear_init wf_ResBlockGenerator_init
      wf_BatchNorm2d_init wf_Conv2d_init channels_def)

section \<open>The generator's forward pass\<close>



section \<open>The two paths of the generator block\<close>

lemma ebind_case: "ebind m f = (case m of Inl e \<Rightarrow> Inl e | Inr v \<Rightarrow> f v)"
  by (cases m) auto

lemma ResBlockGenerator_forward_None_path:
  assumes "gb_model b = [G_BatchNorm2d ModelBN0, G_ReLU, G_Upsample 2, G_Conv Conv1,
                   G_BatchNorm2d ModelBN4, G_ReLU, G_Conv Conv2]"
    and "gb_bypass b = [G_Upsample 2, G_Conv BypassConv]"
  shows "ResBlockGenerator_forward b x None = unconditional_path b x"
  unfolding ResBlockGenerator_forward_def unconditional_path_def
  by (simp add: assms ebind_case split: sum.splits prod.splits)

lemma ResBlockGenerator_forward_Some_path:
  assumes "gb_bypass b = [G_Upsample 2, G_Conv BypassConv]"
  shows "ResBlockGenerator_forward b x (Some h) = conditional_path b x h"
  unfolding ResBlockGenerator_forward_def conditional_path_def
  by (simp add: assms ebind_case split: sum.splits prod.splits)

lemma unconditional_path_frame:
  "unconditional_path b x = Inr (b', t) \<Longrightarrow>
     gb_condgn1 b' = gb_condgn1 b \<and> gb_condgn2 b' = gb_condgn2 b"
  unfolding unconditional_path_def by (auto simp: ebind_eq_Inr)

lemma conditional_path_frame:
  "conditional_path b x h = Inr (b', t) \<Longrightarrow>
     gb_model_bn0 b' = gb_model_bn0 b \<and> gb_model_bn4 b' = gb_model_bn4 b"
  unfolding conditional_path_def by (auto simp: ebind_eq_Inr)

lemma SnganGenerator_forward_pipeline:
  assumes wf: "wf_generator g nz de ch" and ch: "0 < ch"
    and z: "shape z = [N, nz]" "wf_tensor z"
    and h: "case h of None \<Rightarrow> True | Some hh \<Rightarrow> shape hh = [N, de]"
  shows "\<exists>dense' t0 b0 t1 b1 t2 b2 t3 b3 t4 bn' t5 cv' t6.
     Linear_forward (gen_dense g) (Tensor [N, nz] (data z)) = Inr (dense', t0) \<and>
     ResBlockGenerator_forward (gen_genblock0 g) (Tensor [N, ch * 16, 4, 4] (data t0)) h
       = Inr (b0, t1) \<and>
     ResBlockGenerator_forward (gen_genblock1 g) t1 h = Inr (b1, t2) \<and>
     ResBlockGenerator_forward (gen_genblock2 g) t2 h = Inr (b2, t3) \<and>
     ResBlockGenerator_forward (gen_genblock3 g) t3 h = Inr (b3, t4) \<and>
     BatchNorm2d_forward (gen_final_bn g) t4 = Inr (bn', t5) \<and>
     Conv2d_forward (gen_final_conv g) (relu t5) = Inr (cv', t6) \<and>
     SnganGenerator_forward g z h =
       Inr (g \<lparr> gen_dense := dense', gen_genblock0 := b0, gen_genblock1 := b1,
                gen_genblock2 := b2, gen_genblock3 := b3, gen_final_bn := bn',
                gen_final_conv := cv' \<rparr>, t_tanh t6) \<and>
     shape t1 = [N, ch * 8, 8, 8] \<and> shape t2 = [N, ch * 4, 16, 16] \<and>
     shape t3 = [N, ch * 2, 32, 32] \<and> shape t4 = [N, ch, 64, 64] \<and>
     shape t6 = [N, 3, 64, 64] \<and> wf_tensor t6"
proof -
  have blk: "returns (ResBlockGenerator_forward b x h) (\<lambda>b'. wf_gen_block b' cin cout de)
           [N, cout, H * 2, Wd * 2]"
    if "wf_gen_block b cin cout de" "shape x = [N, cin, H, Wd]" "wf_tensor x"
      "N * H * Wd \<noteq> 1" "1 \<le> H" "1 \<le> Wd" "0 < cin" "0 < cout" for b x cin cout H Wd
  proof (cases h)
    case None
    then show ?thesis using ResBlockGenerator_forward_None_returns [OF that(1-6)] by simp
  next
    case (Some hh)
    then show ?thesis using ResBlockGenerator_forward_Some_returns [OF that(1-6) _ that(7,8)] h by simp
  qed
  from wf have chg: "gen_gen_ch g = ch" and dn: "wf_linear (gen_dense g) nz (4 * 4 * ch * 16)"
    and w0: "wf_gen_block (gen_genblock0 g) (ch * 16) (ch * 8) de"
    and w1: "wf_gen_block (gen_genblock1 g) (ch * 8) (ch * 4) de"
    and w2: "wf_gen_block (gen_genblock2 g) (ch * 4) (ch * 2) de"
    and w3: "wf_gen_block (gen_genblock3 g) (ch * 2) ch de"
    and fb: "wf_bn (gen_final_bn g) ch" and fc: "wf_conv (gen_final_conv g) ch 3 3 1"
    by (simp_all add: wf_generator_def)
  have s: "size_dim z 0 = Inr N" "size_dim z 1 = Inr nz" using z by (simp_all add: size_dim_def)
  have v: "view z [int N, int nz] = Inr (Tensor [N, nz] (data z))" by (rule view_flat2 [OF z(1)])
  obtain dn' t0 where 1: "Linear_forward (gen_dense g) (Tensor [N, nz] (data z)) = Inr (dn', t0)"
    and t0: "shape t0 = [N, 4 * 4 * ch * 16]" "wf_tensor t0"
    using Linear_forward_returns [OF dn, of "Tensor [N, nz] (data z)" N] by (auto simp: returns_def)
  have v2: "view t0 [- 1, int (ch * 16), 4, 4] = Inr (Tensor [N, ch * 16, 4, 4] (data t0))"
    by (rule view_grid [OF ch t0(1)])
  let ?x = "Tensor [N, ch * 16, 4, 4] (data t0)"
  have x: "shape ?x = [N, ch * 16, 4, 4]" "wf_tensor ?x"
    using t0 by (simp_all add: wf_tensor_def)
  obtain b0 t1 where 3: "ResBlockGenerator_forward (gen_genblock0 g) ?x h = Inr (b0, t1)"
    and t1: "shape t1 = [N, ch * 8, 8, 8]" "wf_tensor t1"
    using blk [OF w0 x] ch by (auto simp: returns_def)
  obtain b1 t2 where 4: "ResBlockGenerator_forward (gen_genblock1 g) t1 h = Inr (b1, t2)"
    and t2: "shape t2 = [N, ch * 4, 16, 16]" "wf_tensor t2"
    using blk [OF w1 t1] ch by (auto simp: returns_def)
  obtain b2 t3 where 5: "ResBlockGenerator_forward (gen_genblock2 g) t2 h = Inr (b2, t3)"
    and t3: "shape t3 = [N, ch * 2, 32, 32]" "wf_tensor t3"
    using blk [OF w2 t2] ch by (auto simp: returns_def)
  obtain b3 t4 where 6: "ResBlockGenerator_forward (gen_genblock3 g) t3 h = Inr (b3, t4)"
    and t4: "shape t4 = [N, ch, 64, 64]" "wf_tensor t4"
    using blk [OF w3 t3] ch by (auto simp: returns_def)
  have "N * 64 * 64 \<noteq> 1" by simp
  from BatchNorm2d_forward_returns [OF fb t4(1) this t4(2)]
  obtain bn' t5 where 7: "BatchNorm2d_forward (gen_final_bn g) t4 = Inr (bn', t5)"
    and t5: "shape t5 = [N, ch, 64, 64]"
    by (auto simp: returns_def)
  have "shape (relu t5) = [N, ch, 64, 64]" using t5 by simp
  from Conv2d_forward_returns [OF fc this]
  obtain cv' t6 where 8: "Conv2d_forward (gen_final_conv g) (relu t5) = Inr (cv', t6)"
    and t6: "shape t6 = [N, 3, 64, 64]" "wf_tensor t6"
    by (auto simp: returns_def)
  have fw: "SnganGenerator_forward g z h =
       Inr (g \<lparr> gen_dense := dn', gen_genblock0 := b0, gen_genblock1 := b1,
                gen_genblock2 := b2, gen_genblock3 := b3, gen_final_bn := bn',
                gen_final_conv := cv' \<rparr>, t_tanh t6)"
    using s v 1 chg v2 3 4 5 6 7 8 by (simp add: SnganGenerator_forward_def)
  show ?thesis
    using 1 3 4 5 6 7 8 fw t1(1) t2(1) t3(1) t4(1) t6 by blast
qed

text \<open>
  Claim C4. Called with the label embedding set to none, the generator runs each of its
  four residual blocks on the unconditional path (plain batch-norm, activate, upsample,
  convolve, norm, activate, convolve, plus the bypass), one block on the output of the
  one before, leaves the conditional normalisations of every block as they were, and
  returns the tanh of the final convolution, an image tensor of shape
  \<open>(N, 3, 64, 64)\<close>, for every batch size \<open>N\<close>.
\<close>

theorem generator_unconditional:
  assumes "wf_generator g nz de ch" and "0 < ch"
    and "shape z = [N, nz]" and "wf_tensor z"
  shows "(\<exists>dense' t0 b0 t1 b1 t2 b2 t3 b3 t4 bn' t5 cv' t6.
     Linear_forward (gen_dense g) (Tensor [N, nz] (data z)) = Inr (dense', t0) \<and>
     unconditional_path (gen_genblock0 g) (Tensor [N, ch * 16, 4, 4] (data t0)) = Inr (b0, t1) \<and>
     unconditional_path (gen_genblock1 g) t1 = Inr (b1, t2) \<and>
     unconditional_path (gen_genblock2 g) t2 = Inr (b2, t3) \<and>
     unconditional_path (gen_genblock3 g) t3 = Inr (b3, t4) \<and>
     BatchNorm2d_forward (gen_final_bn g) t4 = Inr (bn', t5) \<and>
     Conv2d_forward (gen_final_conv g) (relu t5) = Inr (cv', t6) \<and>
     SnganGenerator_forward g z None =
       Inr (g \<lparr> gen_dense := dense', gen_genblock0 := b0, gen_genblock1 := b1,
                gen_genblock2 := b2, gen_genblock3 := b3, gen_final_bn := bn',
                gen_final_conv := cv' \<rparr>, t_tanh t6) \<and>
     shape t1 = [N, ch * 8, 8, 8] \<and> shape t2 = [N, ch * 4, 16, 16] \<and>
     shape t3 = [N, ch * 2, 32, 32] \<and> shape t4 = [N, ch, 64, 64] \<and>
     shape (t_tanh t6) = [N, 3, 64, 64] \<and> wf_tensor (t_tanh t6) \<and>
     gb_condgn1 b0 = gb_condgn1 (gen_genblock0 g) \<and> gb_condgn2 b0 = gb_condgn2 (gen_genblock0 g) \<and>
     gb_condgn1 b1 = gb_condgn1 (gen_genblock1 g) \<and> gb_condgn2 b1 = gb_condgn2 (gen_genblock1 g) \<and>
     gb_condgn1 b2 = gb_condgn1 (gen_genblock2 g) \<and> gb_condgn2 b2 = gb_condgn2 (gen_genblock2 g) \<and>
     gb_condgn1 b3 = gb_condgn1 (gen_genblock3 g) \<and> gb_condgn2 b3 = gb_condgn2 (gen_genblock3 g)) \<and>
   (\<forall>b \<in> {gen_genblock0 g, gen_genblock1 g, gen_genblock2 g, gen_genblock3 g}.
      \<forall>x. ResBlockGenerator_forward b x None = unconditional_path b x)"
proof -
  have path: "ResBlockGenerator_forward b x None = unconditional_path b x"
    if "wf_gen_block b cin cout de" for b x cin cout
    using that by (intro ResBlockGenerator_forward_None_path) (simp_all add: wf_gen_block_def)
  from assms(1) have p: "ResBlockGenerator_forward (gen_genblock0 g) x None =
        unconditional_path (gen_genblock0 g) x"
      "ResBlockGenerator_forward (gen_genblock1 g) x None = unconditional_path (gen_genblock1 g) x"
      "ResBlockGenerator_forward (gen_genblock2 g) x None = unconditional_path (gen_genblock2 g) x"
      "ResBlockGenerator_forward (gen_genblock3 g) x None = unconditional_path (gen_genblock3 g) x"
    for x
    by (auto simp: wf_generator_def intro: path)
  have "case None :: tensor option of None \<Rightarrow> True | Some hh \<Rightarrow> shape hh = [N, de]"
    by simp
  from SnganGenerator_forward_pipeline [OF assms(1-4) this, unfolded p]
  obtain dense' t0 b0 t1 b1 t2 b2 t3 b3 t4 bn' t5 cv' t6 where
    r: "Linear_forward (gen_dense g) (Tensor [N, nz] (data z)) = Inr (dense', t0)"
      "unconditional_path (gen_genblock0 g) (Tensor [N, ch * 16, 4, 4] (data t0)) = Inr (b0, t1)"
      "unconditional_path (gen_genblock1 g) t1 = Inr (b1, t2)"
      "unconditional_path (gen_genblock2 g) t2 = Inr (b2, t3)"
      "unconditional_path (gen_genblock3 g) t3 = Inr (b3, t4)"
      "BatchNorm2d_forward (gen_final_bn g) t4 = Inr (bn', t5)"
      "Conv2d_forward (gen_final_conv g) (relu t5) = Inr (cv', t6)"
      "SnganGenerator_forward g z None =
         Inr (g \<lparr> gen_dense := dense', gen_genblock0 := b0, gen_genblock1 := b1,
                gen_genblock2 := b2, gen_genblock3 := b3, gen_final_bn := bn',
                gen_final_conv := cv' \<rparr>, t_tanh t6)"
      "shape t1 = [N, ch * 8, 8, 8]" "shape t2 = [N, ch * 4, 16, 16]"
      "shape t3 = [N, ch * 2, 32, 32]" "shape t4 = [N, ch, 64, 64]"
    and t6: "shape t6 = [N, 3, 64, 64]" "wf_tensor t6"
    by blast
  note f = unconditional_path_frame [OF r(2)] unconditional_path_frame [OF r(3)]
    unconditional_path_frame [OF r(4)] unconditional_path_frame [OF r(5)]
  have o: "shape (t_tanh t6) = [N, 3, 64, 64]" "wf_tensor (t_tanh t6)" using t6 by simp_all
  have blocks: "\<forall>b \<in> {gen_genblock0 g, gen_genblock1 g, gen_genblock2 g, gen_genblock3 g}.
      \<forall>x. ResBlockGenerator_forward b x None = unconditional_path b x"
    using p by simp
  have "\<exists>dense' t0 b0 t1 b1 t2 b2 t3 b3 t4 bn' t5 cv' t6.
     Linear_forward (gen_dense g) (Tensor [N, nz] (data z)) = Inr (dense', t0) \<and>
     unconditional_path (gen_genblock0 g) (Tensor [N, ch * 16, 4, 4] (data t0)) = Inr (b0, t1) \<and>
     unconditional_path (gen_genblock1 g) t1 = Inr (b1, t2) \<and>
     unconditional_path (gen_genblock2 g) t2 = Inr (b2, t3) \<and>
     unconditional_path (gen_genblock3 g) t3 = Inr (b3, t4) \<and>
     BatchNorm2d_forward (gen_final_bn g) t4 = Inr (bn', t5) \<and>
     Conv2d_forward (gen_final_conv g) (relu t5) = Inr (cv', t6) \<and>
     SnganGenerator_forward g z None =
       Inr (g \<lparr> gen_dense := dense', gen_genblock0 := b0, gen_genblock1 := b1,
                gen_genblock2 := b2, gen_genblock3 := b3, gen_final_bn := bn',
                gen_final_conv := cv' \<rparr>, t_tanh t6) \<and>
     shape t1 = [N, ch * 8, 8, 8] \<and> shape t2 = [N, ch * 4, 16, 16] \<and>
     shape t3 = [N, ch * 2, 32, 32] \<and> shape t4 = [N, ch, 64, 64] \<and>
     shape (t_tanh t6) = [N, 3, 64, 64] \<and> wf_tensor (t_tanh t6) \<and>
     gb_condgn1 b0 = gb_condgn1 (gen_genblock0 g) \<and> gb_condgn2 b0 = gb_condgn2 (gen_genblock0 g) \<and>
     gb_condgn1 b1 = gb_condgn1 (gen_genblock1 g) \<and> gb_condgn2 b1 = gb_condgn2 (gen_genblock1 g) \<and>
     gb_condgn1 b2 = gb_condgn1 (gen_genblock2 g) \<and> gb_condgn2 b2 = gb_condgn2 (gen_genblock2 g) \<and>
     gb_condgn1 b3 = gb_condgn1 (gen_genblock3 g) \<and> gb_condgn2 b3 = gb_condgn2 (gen_genblock3 g)"
    using r o f by blast
  with blocks show ?thesis by (rule conjI [rotated])
qed

theorem generator_unconditional_witness:
  "(\<exists>g' out. SnganGenerator_forward (SnganGenerator_init (\<lambda>k i. 0) 1 1 1)
       (Tensor [1, 1] [0]) None = Inr (g', out) \<and> shape out = [1, 3, 64, 64]) \<and>
   ResBlockGenerator_forward (gen_genblock0 (SnganGenerator_init (\<lambda>k i. 0) 1 1 1))
       (Tensor [1, 16, 4, 4] (replicate 256 0)) None =
     unconditional_path (gen_genblock0 (SnganGenerator_init (\<lambda>k i. 0) 1 1 1))
       (Tensor [1, 16, 4, 4] (replicate 256 0))"
proof -
  have z: "shape (Tensor [1, 1] [0::real]) = [1, 1]" "wf_tensor (Tensor [1, 1] [0::real])"
    by (simp_all add: wf_tensor_def)
  have c: "(0::nat) < 1" by simp
  note t = generator_unconditional [OF wf_SnganGenerator_init [of "\<lambda>k i. 0" 1 1 1] c z]
  from t obtain g' t6 where
    "SnganGenerator_forward (SnganGenerator_init (\<lambda>k i. 0) 1 1 1) (Tensor [1, 1] [0]) None =
       Inr (g', t_tanh t6)" "shape (t_tanh t6) = [1, 3, 64, 64]"
    by blast
  moreover from t have "ResBlockGenerator_forward (gen_genblock0 (SnganGenerator_init (\<lambda>k i. 0) 1 1 1))
       (Tensor [1, 16, 4, 4] (replicate 256 0)) None =
     unconditional_path (gen_genblock0 (SnganGenerator_init (\<lambda>k i. 0) 1 1 1))
       (Tensor [1, 16, 4, 4] (replicate 256 0))"
    by blast
  ultimately show ?thesis by blast
qed

lemma conditional_path_plain_bn_irrelevant:
  "result_tensor (conditional_path (b \<lparr> gb_model_bn0 := n0, gb_model_bn4 := n4 \<rparr>) x h) =
   result_tensor (conditional_path b x h)"
  unfolding conditional_path_def result_tensor_def
  by (simp add: ebind_case split: sum.splits prod.splits)

lemma unconditional_path_cond_bn_irrelevant:
  "result_tensor (unconditional_path (b \<lparr> gb_condgn1 := c1, gb_condgn2 := c2 \<rparr>) x) =
   result_tensor (unconditional_path b x)"
  unfolding unconditional_path_def result_tensor_def
  by (simp add: ebind_case split: sum.splits prod.splits)

text \<open>
  Claim C9. In the generator residual block both paths run the block's own \<open>conv1\<close>,
  \<open>conv2\<close> and \<open>bypass_conv\<close>, and each path has its own normalisation modules: the
  conditional path runs \<open>condgn1\<close> and \<open>condgn2\<close> and leaves the two plain
  batch-norm modules (and their running statistics) as they were, the unconditional path
  runs the two plain batch-norm modules and leaves \<open>condgn1\<close> and \<open>condgn2\<close> as they
  were; the tensor a path returns does not depend on the other path's normalisations.
\<close>

theorem gen_block_shared_convs_distinct_norms:
  assumes "wf_gen_block b cin cout de"
  shows "ResBlockGenerator_forward b x (Some h) = conditional_path b x h \<and>
         ResBlockGenerator_forward b x None = unconditional_path b x \<and>
         (\<forall>b' t. ResBlockGenerator_forward b x (Some h) = Inr (b', t) \<longrightarrow>
            gb_model_bn0 b' = gb_model_bn0 b \<and> gb_model_bn4 b' = gb_model_bn4 b) \<and>
         (\<forall>b' t. ResBlockGenerator_forward b x None = Inr (b', t) \<longrightarrow>
            gb_condgn1 b' = gb_condgn1 b \<and> gb_condgn2 b' = gb_condgn2 b) \<and>
         (\<forall>n0 n4. result_tensor (ResBlockGenerator_forward
                       (b \<lparr> gb_model_bn0 := n0, gb_model_bn4 := n4 \<rparr>) x (Some h)) =
                   result_tensor (ResBlockGenerator_forward b x (Some h))) \<and>
         (\<forall>c1 c2. result_tensor (ResBlockGenerator_forward
                       (b \<lparr> gb_condgn1 := c1, gb_condgn2 := c2 \<rparr>) x None) =
                   result_tensor (ResBlockGenerator_forward b x None))"
proof -
  from assms have m: "gb_model b = [G_BatchNorm2d ModelBN0, G_ReLU, G_Upsample 2, G_Conv Conv1,
                   G_BatchNorm2d ModelBN4, G_ReLU, G_Conv Conv2]"
    and y: "gb_bypass b = [G_Upsample 2, G_Conv BypassConv]"
    by (simp_all add: wf_gen_block_def)
  have c: "ResBlockGenerator_forward b x (Some h) = conditional_path b x h"
    by (rule ResBlockGenerator_forward_Some_path [OF y])
  have u: "ResBlockGenerator_forward b x None = unconditional_path b x"
    by (rule ResBlockGenerator_forward_None_path [OF m y])
  have c': "ResBlockGenerator_forward (b \<lparr> gb_model_bn0 := n0, gb_model_bn4 := n4 \<rparr>) x (Some h) =
              conditional_path (b \<lparr> gb_model_bn0 := n0, gb_model_bn4 := n4 \<rparr>) x h" for n0 n4
    by (rule ResBlockGenerator_forward_Some_path) (simp add: y)
  have u': "ResBlockGenerator_forward (b \<lparr> gb_condgn1 := c1, gb_condgn2 := c2 \<rparr>) x None =
              unconditional_path (b \<lparr> gb_condgn1 := c1, gb_condgn2 := c2 \<rparr>) x" for c1 c2
    by (rule ResBlockGenerator_forward_None_path) (simp_all add: m y)
  show ?thesis
    unfolding c u c' u'
    using conditional_path_frame [of b x h] unconditional_path_frame [of b x]
    by (simp add: conditional_path_plain_bn_irrelevant unconditional_path_cond_bn_irrelevant)
qed

theorem gen_block_shared_convs_distinct_norms_witness:
  "(\<exists>b' t. ResBlockGenerator_forward (ResBlockGenerator_init (\<lambda>k i. 0) 1 1 1 True)
       (Tensor [1, 1, 2, 2] [0, 0, 0, 0]) (Some (Tensor [1, 1] [0])) = Inr (b', t) \<and>
     gb_model_bn0 b' = gb_model_bn0 (ResBlockGenerator_init (\<lambda>k i. 0) 1 1 1 True)) \<and>
   (\<exists>b' t. ResBlockGenerator_forward (ResBlockGenerator_init (\<lambda>k i. 0) 1 1 1 True)
       (Tensor [1, 1, 2, 2] [0, 0, 0, 0]) None = Inr (b', t) \<and>
     gb_condgn1 b' = gb_condgn1 (ResBlockGenerator_init (\<lambda>k i. 0) 1 1 1 True))"
proof -
  let ?b = "ResBlockGenerator_init (\<lambda>k i. 0) 1 1 1 True"
  let ?x = "Tensor [1, 1, 2, 2] [0, 0, 0, 0]"
  let ?h = "Tensor [1, 1] [0]"
  have wf: "wf_gen_block ?b 1 1 1" by (rule wf_ResBlockGenerator_init)
  have x: "shape ?x = [1, 1, 2, 2]" "wf_tensor ?x" by (simp_all add: wf_tensor_def)
  have h: "shape ?h = [1, 1]" by simp
  have "returns (ResBlockGenerator_forward ?b ?x (Some ?h)) (\<lambda>b'. wf_gen_block b' 1 1 1) [1, 1, 2 * 2, 2 * 2]"
    by (rule ResBlockGenerator_forward_Some_returns [OF wf x _ _ _ h]) simp_all
  then obtain b1 t1 where 1: "ResBlockGenerator_forward ?b ?x (Some ?h) = Inr (b1, t1)"
    by (auto simp: returns_def)
  have "returns (ResBlockGenerator_forward ?b ?x None) (\<lambda>b'. wf_gen_block b' 1 1 1) [1, 1, 2 * 2, 2 * 2]"
    by (rule ResBlockGenerator_forward_None_returns [OF wf x]) simp_all
  then obtain b2 t2 where 2: "ResBlockGenerator_forward ?b ?x None = Inr (b2, t2)"
    by (auto simp: returns_def)
  from gen_block_shared_convs_distinct_norms [OF wf, of ?x ?h] 1 2
  show ?thesis by auto
qed

section \<open>Shapes through the discriminator\<close>

lemma F_conv2d_empty_rows:
  "shape x = [N, cin, 0, Wd] \<Longrightarrow> shape W = [cout, cin, 3, 3] \<Longrightarrow>
   F_conv2d x W b s 1 = Inl RuntimeError"
  by (simp add: F_conv2d_def Let_def)

lemma F_conv2d_empty_cols:
  "shape x = [N, cin, H, 0] \<Longrightarrow> shape W = [cout, cin, 3, 3] \<Longrightarrow>
   F_conv2d x W b s 1 = Inl RuntimeError"
  by (simp add: F_conv2d_def Let_def)

lemma Conv2d_forward_empty:
  assumes "wf_conv cv cin cout 3 1" "shape x = [N, cin, H, Wd]" "H = 0 \<or> Wd = 0"
  shows "Conv2d_forward cv x = Inl RuntimeError"
proof -
  obtain sn' W where ew: "effective_weight (cv_training cv) (cv_weight cv) (cv_sn cv) = (sn', W)"
    by (cases "effective_weight (cv_training cv) (cv_weight cv) (cv_sn cv)")
  have W: "shape W = [cout, cin, 3, 3]"
    using shape_effective_weight [of "cv_training cv" "cv_weight cv" "cv_sn cv"] ew assms(1)
    by (simp add: wf_conv_def)
  have "F_conv2d x W (cv_bias cv) (cv_stride cv) 1 = Inl RuntimeError"
    using assms(2,3) W F_conv2d_empty_rows F_conv2d_empty_cols by blast
  then show ?thesis
    using ew assms(1) by (simp add: Conv2d_forward_def wf_conv_def)
qed

text \<open>The main path of a discriminator block up to its pooling: two 3x3 convolutions.\<close>

lemma db_two_convs:
  assumes wf: "wf_disc_convs b cin cout" and x: "shape x = [N, cin, H, Wd]"
    and pos: "1 \<le> H" "1 \<le> Wd"
  shows "\<exists>cv1 t1 cv2 t2. Conv2d_forward (db_conv1 b) x = Inr (cv1, t1) \<and>
           Conv2d_forward (db_conv2 b) (relu t1) = Inr (cv2, t2) \<and>
           wf_sn_conv cv1 cin cout 3 1 \<and> wf_sn_conv cv2 cout cout 3 1 \<and>
           shape t1 = [N, cout, H, Wd] \<and> shape t2 = [N, cout, H, Wd] \<and> wf_tensor t2"
proof -
  from wf have c1: "wf_conv (db_conv1 b) cin cout 3 1" "cv_sn (db_conv1 b) \<noteq> None"
    and c2: "wf_conv (db_conv2 b) cout cout 3 1" "cv_sn (db_conv2 b) \<noteq> None"
    by (simp_all add: wf_disc_convs_def wf_sn_conv_def)
  obtain cv1 t1 where 1: "Conv2d_forward (db_conv1 b) x = Inr (cv1, t1)"
    and t1: "shape t1 = [N, cout, H, Wd]" and cv1: "wf_sn_conv cv1 cin cout 3 1"
    using Conv2d_forward_returns [OF c1(1) x] pos c1(2) by (auto simp: returns_def wf_sn_conv_def)
  have "shape (relu t1) = [N, cout, H, Wd]" using t1 by simp
  from Conv2d_forward_returns [OF c2(1) this]
  obtain cv2 t2 where 2: "Conv2d_forward (db_conv2 b) (relu t1) = Inr (cv2, t2)"
    and t2: "shape t2 = [N, cout, H, Wd]" "wf_tensor t2" and cv2: "wf_sn_conv cv2 cout cout 3 1"
    using pos c2(2) by (auto simp: returns_def wf_sn_conv_def)
  show ?thesis using 1 2 t1 t2 cv1 cv2 by blast
qed

lemma db_bypass_conv_returns:
  assumes wf: "wf_disc_convs b cin cout" and x: "shape x = [N, cin, H, Wd]"
    and pos: "1 \<le> H" "1 \<le> Wd"
  shows "\<exists>cv t. Conv2d_forward (db_bypass_conv b) x = Inr (cv, t) \<and>
           wf_sn_conv cv cin cout 1 0 \<and> shape t = [N, cout, H, Wd] \<and> wf_tensor t"
proof -
  from wf have c: "wf_conv (db_bypass_conv b) cin cout 1 0" "cv_sn (db_bypass_conv b) \<noteq> None"
    by (simp_all add: wf_disc_convs_def wf_sn_conv_def)
  show ?thesis
    using Conv2d_forward_returns [OF c(1) x] c(2) pos by (auto simp: returns_def wf_sn_conv_def)
qed

lemma ResBlockDiscriminator_forward_stride2_returns:
  assumes wf: "wf_res_block b cin cout 2" and x: "shape x = [N, cin, H, Wd]"
    and big: "2 \<le> H" "2 \<le> Wd"
  shows "returns (ResBlockDiscriminator_forward b x) (\<lambda>b'. wf_res_block b' cin cout 2)
           [N, cout, H div 2, Wd div 2]"
proof -
  from wf have cs: "wf_disc_convs b cin cout"
    and m: "db_model b = [D_ReLU, D_Conv Conv1, D_ReLU, D_Conv Conv2, D_AvgPool2d 2 2]"
    and y: "db_bypass b = [D_Conv BypassConv, D_AvgPool2d 2 2]"
    by (simp_all add: wf_res_block_def)
  have rx: "shape (relu x) = [N, cin, H, Wd]" using x by simp
  from db_two_convs [OF cs rx] big
  obtain cv1 t1 cv2 t2 where 1: "Conv2d_forward (db_conv1 b) (relu x) = Inr (cv1, t1)"
    and 2: "Conv2d_forward (db_conv2 b) (relu t1) = Inr (cv2, t2)"
    and cv: "wf_sn_conv cv1 cin cout 3 1" "wf_sn_conv cv2 cout cout 3 1"
    and t2: "shape t2 = [N, cout, H, Wd]"
    by auto
  obtain t3 where 3: "avg_pool2d 2 2 t2 = Inr t3" and t3: "shape t3 = [N, cout, H div 2, Wd div 2]"
    using avg_pool2d_shape [OF t2 big] by auto
  from db_bypass_conv_returns [OF cs x] big
  obtain cvb t4 where 4: "Conv2d_forward (db_bypass_conv b) x = Inr (cvb, t4)"
    and cvb: "wf_sn_conv cvb cin cout 1 0" and t4: "shape t4 = [N, cout, H, Wd]"
    by auto
  obtain t5 where 5: "avg_pool2d 2 2 t4 = Inr t5" and t5: "shape t5 = [N, cout, H div 2, Wd div 2]"
    using avg_pool2d_shape [OF t4 big] by auto
  obtain res where 6: "t_add t3 t5 = Inr res" "shape res = [N, cout, H div 2, Wd div 2]" "wf_tensor res"
    using t_add_same_shape [OF t3 t5] by auto
  show ?thesis
    using wf cv cvb 6 1 2 3 4 5
    by (simp add: ResBlockDiscriminator_forward_def m y returns_def wf_res_block_def wf_disc_convs_def)
qed

lemma ResBlockDiscriminator_forward_stride2_small:
  assumes wf: "wf_res_block b cin cout 2" and x: "shape x = [N, cin, H, Wd]"
    and small: "H < 2 \<or> Wd < 2"
  shows "ResBlockDiscriminator_forward b x = Inl RuntimeError"
proof -
  from wf have cs: "wf_disc_convs b cin cout"
    and m: "db_model b = [D_ReLU, D_Conv Conv1, D_ReLU, D_Conv Conv2, D_AvgPool2d 2 2]"
    by (simp_all add: wf_res_block_def)
  have rx: "shape (relu x) = [N, cin, H, Wd]" using x by simp
  show ?thesis
  proof (cases "H = 0 \<or> Wd = 0")
    case True
    from cs have "wf_conv (db_conv1 b) cin cout 3 1" by (simp add: wf_disc_convs_def wf_sn_conv_def)
    from Conv2d_forward_empty [OF this rx True]
    show ?thesis by (simp add: ResBlockDiscriminator_forward_def m)
  next
    case False
    then have pos: "1 \<le> H" "1 \<le> Wd" by auto
    from db_two_convs [OF cs rx pos]
    obtain cv1 t1 cv2 t2 where 1: "Conv2d_forward (db_conv1 b) (relu x) = Inr (cv1, t1)"
      and 2: "Conv2d_forward (db_conv2 b) (relu t1) = Inr (cv2, t2)"
      and t2: "shape t2 = [N, cout, H, Wd]"
      by auto
    have 3: "avg_pool2d 2 2 t2 = Inl RuntimeError" by (rule avg_pool2d_small [OF t2 small])
    show ?thesis using 1 2 3 by (simp add: ResBlockDiscriminator_forward_def m)
  qed
qed

lemma ResBlockDiscriminator_forward_stride1_returns:
  assumes wf: "wf_res_block b cin cout 1" and x: "shape x = [N, cin, H, Wd]"
    and pos: "1 \<le> H" "1 \<le> Wd"
  shows "returns (ResBlockDiscriminator_forward b x) (\<lambda>b'. wf_res_block b' cin cout 1)
           [N, cout, H, Wd]"
proof -
  from wf have cs: "wf_disc_convs b cin cout"
    and m: "db_model b = [D_ReLU, D_Conv Conv1, D_ReLU, D_Conv Conv2]"
    and y: "db_bypass b = [D_Conv BypassConv]"
    by (simp_all add: wf_res_block_def)
  have rx: "shape (relu x) = [N, cin, H, Wd]" using x by simp
  from db_two_convs [OF cs rx pos]
  obtain cv1 t1 cv2 t2 where 1: "Conv2d_forward (db_conv1 b) (relu x) = Inr (cv1, t1)"
    and 2: "Conv2d_forward (db_conv2 b) (relu t1) = Inr (cv2, t2)"
    and cv: "wf_sn_conv cv1 cin cout 3 1" "wf_sn_conv cv2 cout cout 3 1"
    and t2: "shape t2 = [N, cout, H, Wd]"
    by auto
  from db_bypass_conv_returns [OF cs x pos]
  obtain cvb t4 where 4: "Conv2d_forward (db_bypass_conv b) x = Inr (cvb, t4)"
    and cvb: "wf_sn_conv cvb cin cout 1 0" and t4: "shape t4 = [N, cout, H, Wd]"
    by auto
  obtain res where 6: "t_add t2 t4 = Inr res" "shape res = [N, cout, H, Wd]" "wf_tensor res"
    using t_add_same_shape [OF t2 t4] by auto
  show ?thesis
    using wf cv cvb 6 1 2 4
    by (simp add: ResBlockDiscriminator_forward_def m y returns_def wf_res_block_def wf_disc_convs_def)
qed

lemma FirstResBlockDiscriminator_forward_returns:
  assumes wf: "wf_first_block b cin cout" and x: "shape x = [N, cin, H, Wd]"
    and big: "2 \<le> H" "2 \<le> Wd"
  shows "returns (FirstResBlockDiscriminator_forward b x) (\<lambda>b'. wf_first_block b' cin cout)
           [N, cout, H div 2, Wd div 2]"
proof -
  from wf have cs: "wf_disc_convs b cin cout"
    and m: "db_model b = [D_Conv Conv1, D_ReLU, D_Conv Conv2, D_AvgPool2d 2 2]"
    and y: "db_bypass b = [D_AvgPool2d 2 2, D_Conv BypassConv]"
    by (simp_all add: wf_first_block_def)
  from db_two_convs [OF cs x] big
  obtain cv1 t1 cv2 t2 where 1: "Conv2d_forward (db_conv1 b) x = Inr (cv1, t1)"
    and 2: "Conv2d_forward (db_conv2 b) (relu t1) = Inr (cv2, t2)"
    and cv: "wf_sn_conv cv1 cin cout 3 1" "wf_sn_conv cv2 cout cout 3 1"
    and t2: "shape t2 = [N, cout, H, Wd]"
    by auto
  obtain t3 where 3: "avg_pool2d 2 2 t2 = Inr t3" and t3: "shape t3 = [N, cout, H div 2, Wd div 2]"
    using avg_pool2d_shape [OF t2 big] by auto
  obtain t4 where 4: "avg_pool2d 2 2 x = Inr t4" and t4: "shape t4 = [N, cin, H div 2, Wd div 2]"
    using avg_pool2d_shape [OF x big] by auto
  have "1 \<le> H div 2" "1 \<le> Wd div 2" using big by auto
  from db_bypass_conv_returns [OF cs t4 this]
  obtain cvb t5 where 5: "Conv2d_forward (db_bypass_conv b) t4 = Inr (cvb, t5)"
    and cvb: "wf_sn_conv cvb cin cout 1 0" and t5: "shape t5 = [N, cout, H div 2, Wd div 2]"
    by auto
  obtain res where 6: "t_add t3 t5 = Inr res" "shape res = [N, cout, H div 2, Wd div 2]" "wf_tensor res"
    using t_add_same_shape [OF t3 t5] by auto
  show ?thesis
    using wf cv cvb 6 1 2 3 4 5
    by (simp add: FirstResBlockDiscriminator_forward_def m y returns_def wf_first_block_def
        wf_disc_convs_def)
qed

lemma FirstResBlockDiscriminator_forward_small:
  assumes wf: "wf_first_block b cin cout" and x: "shape x = [N, cin, H, Wd]"
    and small: "H < 2 \<or> Wd < 2"
  shows "FirstResBlockDiscriminator_forward b x = Inl RuntimeError"
proof -
  from wf have cs: "wf_disc_convs b cin cout"
    and m: "db_model b = [D_Conv Conv1, D_ReLU, D_Conv Conv2, D_AvgPool2d 2 2]"
    by (simp_all add: wf_first_block_def)
  show ?thesis
  proof (cases "H = 0 \<or> Wd = 0")
    case True
    from cs have "wf_conv (db_conv1 b) cin cout 3 1" by (simp add: wf_disc_convs_def wf_sn_conv_def)
    from Conv2d_forward_empty [OF this x True]
    show ?thesis by (simp add: FirstResBlockDiscriminator_forward_def m)
  next
    case False
    then have pos: "1 \<le> H" "1 \<le> Wd" by auto
    from db_two_convs [OF cs x pos]
    obtain cv1 t1 cv2 t2 where 1: "Conv2d_forward (db_conv1 b) x = Inr (cv1, t1)"
      and 2: "Conv2d_forward (db_conv2 b) (relu t1) = Inr (cv2, t2)"
      and t2: "shape t2 = [N, cout, H, Wd]"
      by auto
    have 3: "avg_pool2d 2 2 t2 = Inl RuntimeError" by (rule avg_pool2d_small [OF t2 small])
    show ?thesis using 1 2 3 by (simp add: FirstResBlockDiscriminator_forward_def m)
  qed
qed

lemma SnganDiscriminator_schedule:
  assumes wf: "wf_discriminator d de ch" and x: "shape x = [N, 3, H, Wd]"
    and big: "16 \<le> H" "16 \<le> Wd"
  shows "\<exists>b10 t1 b11 t2 b12 t3 b2 t4 b30 t5.
      FirstResBlockDiscriminator_forward (dis_discblock1_0 d) x = Inr (b10, t1) \<and>
      shape t1 = [N, ch, H div 2, Wd div 2] \<and>
      ResBlockDiscriminator_forward (dis_discblock1_1 d) t1 = Inr (b11, t2) \<and>
      shape t2 = [N, ch * 2, H div 4, Wd div 4] \<and>
      ResBlockDiscriminator_forward (dis_discblock1_2 d) t2 = Inr (b12, t3) \<and>
      shape t3 = [N, ch * 4, H div 8, Wd div 8] \<and>
      ResBlockDiscriminator_forward (dis_discblock2 d) t3 = Inr (b2, t4) \<and>
      shape t4 = [N, ch * 8, H div 16, Wd div 16] \<and>
      ResBlockDiscriminator_forward (dis_discblock3_0 d) t4 = Inr (b30, t5) \<and>
      shape t5 = [N, ch * 16, H div 16, Wd div 16] \<and> wf_tensor t5 \<and>
      wf_discriminator (d \<lparr> dis_discblock1_0 := b10, dis_discblock1_1 := b11,
          dis_discblock1_2 := b12, dis_discblock2 := b2, dis_discblock3_0 := b30 \<rparr>) de ch \<and>
      SnganDiscriminator_features d x =
        Inr (d \<lparr> dis_discblock1_0 := b10, dis_discblock1_1 := b11, dis_discblock1_2 := b12,
                 dis_discblock2 := b2, dis_discblock3_0 := b30 \<rparr>, relu t5)"
proof -
  from wf have w0: "wf_first_block (dis_discblock1_0 d) 3 ch"
    and w1: "wf_res_block (dis_discblock1_1 d) ch (ch * 2) 2"
    and w2: "wf_res_block (dis_discblock1_2 d) (ch * 2) (ch * 4) 2"
    and w3: "wf_res_block (dis_discblock2 d) (ch * 4) (ch * 8) 2"
    and w4: "wf_res_block (dis_discblock3_0 d) (ch * 8) (ch * 16) 1"
    by (simp_all add: wf_discriminator_def channels_def)
  have d4: "H div 2 div 2 = H div 4" "Wd div 2 div 2 = Wd div 4" 
    and d8: "H div 4 div 2 = H div 8" "Wd div 4 div 2 = Wd div 8"
    and d16: "H div 8 div 2 = H div 16" "Wd div 8 div 2 = Wd div 16"
    by (simp_all add: div_mult2_eq [symmetric])
  obtain b10 t1 where 1: "FirstResBlockDiscriminator_forward (dis_discblock1_0 d) x = Inr (b10, t1)"
    and t1: "shape t1 = [N, ch, H div 2, Wd div 2]" and b10: "wf_first_block b10 3 ch"
    using FirstResBlockDiscriminator_forward_returns [OF w0 x] big by (auto simp: returns_def)
  have "2 \<le> H div 2" "2 \<le> Wd div 2" using big by auto
  from ResBlockDiscriminator_forward_stride2_returns [OF w1 t1 this]
  obtain b11 t2 where 2: "ResBlockDiscriminator_forward (dis_discblock1_1 d) t1 = Inr (b11, t2)"
    and t2: "shape t2 = [N, ch * 2, H div 4, Wd div 4]" and b11: "wf_res_block b11 ch (ch * 2) 2"
    by (auto simp: returns_def d4)
  have "2 \<le> H div 4" "2 \<le> Wd div 4" using big by auto
  from ResBlockDiscriminator_forward_stride2_returns [OF w2 t2 this]
  obtain b12 t3 where 3: "ResBlockDiscriminator_forward (dis_discblock1_2 d) t2 = Inr (b12, t3)"
    and t3: "shape t3 = [N, ch * 4, H div 8, Wd div 8]" and b12: "wf_res_block b12 (ch * 2) (ch * 4) 2"
    by (auto simp: returns_def d8)
  have "2 \<le> H div 8" "2 \<le> Wd div 8" using big by auto
  from ResBlockDiscriminator_forward_stride2_returns [OF w3 t3 this]
  obtain b2 t4 where 4: "ResBlockDiscriminator_forward (dis_discblock2 d) t3 = Inr (b2, t4)"
    and t4: "shape t4 = [N, ch * 8, H div 16, Wd div 16]" and b2: "wf_res_block b2 (ch * 4) (ch * 8) 2"
    by (auto simp: returns_def d16)
  have "1 \<le> H div 16" "1 \<le> Wd div 16" using big by auto
  from ResBlockDiscriminator_forward_stride1_returns [OF w4 t4 this]
  obtain b30 t5 where 5: "ResBlockDiscriminator_forward (dis_discblock3_0 d) t4 = Inr (b30, t5)"
    and t5: "shape t5 = [N, ch * 16, H div 16, Wd div 16]" "wf_tensor t5"
    and b30: "wf_res_block b30 (ch * 8) (ch * 16) 1"
    by (auto simp: returns_def)
  have wf': "wf_discriminator (d \<lparr> dis_discblock1_0 := b10, dis_discblock1_1 := b11,
          dis_discblock1_2 := b12, dis_discblock2 := b2, dis_discblock3_0 := b30 \<rparr>) de ch"
    using wf b10 b11 b12 b2 b30 by (simp add: wf_discriminator_def channels_def)
  have f: "SnganDiscriminator_features d x =
        Inr (d \<lparr> dis_discblock1_0 := b10, dis_discblock1_1 := b11, dis_discblock1_2 := b12,
                 dis_discblock2 := b2, dis_discblock3_0 := b30 \<rparr>, relu t5)"
    using 1 2 3 4 5 by (simp add: SnganDiscriminator_features_def)
  show ?thesis
    using 1 t1 2 t2 3 t3 4 t4 5 t5 wf' f by blast
qed

lemma SnganDiscriminator_features_small:
  assumes wf: "wf_discriminator d de ch" and x: "shape x = [N, 3, H, Wd]"
    and small: "H < 16 \<or> Wd < 16"
  shows "SnganDiscriminator_features d x = Inl RuntimeError"
proof -
  from wf have w0: "wf_first_block (dis_discblock1_0 d) 3 ch"
    and w1: "wf_res_block (dis_discblock1_1 d) ch (ch * 2) 2"
    and w2: "wf_res_block (dis_discblock1_2 d) (ch * 2) (ch * 4) 2"
    and w3: "wf_res_block (dis_discblock2 d) (ch * 4) (ch * 8) 2"
    by (simp_all add: wf_discriminator_def channels_def)
  have d4: "H div 2 div 2 = H div 4" "Wd div 2 div 2 = Wd div 4" 
    and d8: "H div 4 div 2 = H div 8" "Wd div 4 div 2 = Wd div 8"
    by (simp_all add: div_mult2_eq [symmetric])
  show ?thesis
  proof (cases "H < 2 \<or> Wd < 2")
    case True
    from FirstResBlockDiscriminator_forward_small [OF w0 x True]
    show ?thesis by (simp add: SnganDiscriminator_features_def)
  next
    case False
    then have "2 \<le> H" "2 \<le> Wd" by auto
    from FirstResBlockDiscriminator_forward_returns [OF w0 x this]
    obtain b10 t1 where 1: "FirstResBlockDiscriminator_forward (dis_discblock1_0 d) x = Inr (b10, t1)"
      and t1: "shape t1 = [N, ch, H div 2, Wd div 2]"
      by (auto simp: returns_def)
    show ?thesis
    proof (cases "H div 2 < 2 \<or> Wd div 2 < 2")
      case True
      from ResBlockDiscriminator_forward_stride2_small [OF w1 t1 True] 1
      show ?thesis by (simp add: SnganDiscriminator_features_def)
    next
      case False
      then have "2 \<le> H div 2" "2 \<le> Wd div 2" by auto
      from ResBlockDiscriminator_forward_stride2_returns [OF w1 t1 this]
      obtain b11 t2 where 2: "ResBlockDiscriminator_forward (dis_discblock1_1 d) t1 = Inr (b11, t2)"
        and t2: "shape t2 = [N, ch * 2, H div 4, Wd div 4]"
        by (auto simp: returns_def d4)
      show ?thesis
      proof (cases "H div 4 < 2 \<or> Wd div 4 < 2")
        case True
        from ResBlockDiscriminator_forward_stride2_small [OF w2 t2 True] 1 2
        show ?thesis by (simp add: SnganDiscriminator_features_def)
      next
        case False
        then have "2 \<le> H div 4" "2 \<le> Wd div 4" by auto
        from ResBlockDiscriminator_forward_stride2_returns [OF w2 t2 this]
        obtain b12 t3 where 3: "ResBlockDiscriminator_forward (dis_discblock1_2 d) t2 = Inr (b12, t3)"
          and t3: "shape t3 = [N, ch * 4, H div 8, Wd div 8]"
          by (auto simp: returns_def d8)
        have "H div 8 < 2 \<or> Wd div 8 < 2" using small by auto
        from ResBlockDiscriminator_forward_stride2_small [OF w3 t3 this] 1 2 3
        show ?thesis by (simp add: SnganDiscriminator_features_def)
      qed
    qed
  qed
qed

lemma view_rows:
  "0 < a \<Longrightarrow> view t [- 1, int a] =
     (if numel t mod a = 0 then Inr (Tensor [numel t div a, a] (data t)) else Inl RuntimeError)"
  by (simp add: view_def Let_def)

lemma view_column: "view t [- 1, 1] = Inr (Tensor [numel t, 1] (data t))"
  by (simp add: view_def Let_def)

lemma flat_rows:
  fixes ch N hh ww :: nat
  assumes "0 < ch"
  shows "(N * (ch * 16) * hh * ww) mod (ch * 16 * 4 * 4) = 0 \<longleftrightarrow> (N * hh * ww) mod 16 = 0"
    and "(N * (ch * 16) * hh * ww) div (ch * 16 * 4 * 4) = (N * hh * ww) div 16"
proof -
  define M where "M = N * hh * ww"
  define c where "c = ch * 16"
  have c: "0 < c" using assms by (simp add: c_def)
  have a: "N * (ch * 16) * hh * ww = c * M" by (simp add: M_def c_def algebra_simps)
  have b: "ch * 16 * 4 * 4 = c * 16" by (simp add: c_def)
  have m: "(c * M) mod (c * 16) = c * (M mod 16)" by (rule mult_mod_right [symmetric])
  have d: "(c * M) div (c * 16) = M div 16" using c by simp
  show "(N * (ch * 16) * hh * ww) mod (ch * 16 * 4 * 4) = 0 \<longleftrightarrow> (N * hh * ww) mod 16 = 0"
    unfolding a b m using c by (simp add: M_def)
  show "(N * (ch * 16) * hh * ww) div (ch * 16 * 4 * 4) = (N * hh * ww) div 16"
    unfolding a b d by (simp add: M_def)
qed

lemma sum_dim1_shape:
  "shape t = [B, D] \<Longrightarrow> \<exists>r. sum_dim1 t = Inr r \<and> shape r = [B, 1] \<and> wf_tensor r"
  by (simp add: sum_dim1_def Let_def)

lemma bshape_rows:
  "bshape [B, D] [N, D] = (if B = N \<or> B = 1 \<or> N = 1 then Some [if B = 1 then N else B, D] else None)"
  by simp

lemma broadcast2_rows:
  assumes "shape x = [B, D]" "shape y = [N, D]"
  shows "broadcast2 f x y =
     (if B = N \<or> B = 1 \<or> N = 1
      then Inr (tabulate [if B = 1 then N else B, D]
             (\<lambda>i. f (data x ! bidx [if B = 1 then N else B, D] [B, D] i)
                     (data y ! bidx [if B = 1 then N else B, D] [N, D] i)))
      else Inl RuntimeError)"
proof -
  have "length (shape x) = length (shape y)" using assms by simp
  from broadcast2_eq_rank [OF this, of f] show ?thesis
    unfolding assms bshape_rows by simp
qed

lemma SnganDiscriminator_head_shape:
  assumes f: "SnganDiscriminator_features d x = Inr (d1, out)"
    and out: "shape out = [N, ch * 16, hh, ww]"
    and wf: "wf_discriminator d1 de ch" and ch: "0 < ch"
    and h: "shape h = [N, de]" and pos: "0 < hh" "0 < ww"
  shows "result_shape (SnganDiscriminator_forward d x h) =
     (if (N * hh * ww) mod 16 \<noteq> 0 then Inl RuntimeError
      else if (N * hh * ww) div 16 = N \<or> (N * hh * ww) div 16 = 1 \<or> N = 1
        then Inr [max ((N * hh * ww) div 16) N, 1]
      else Inl RuntimeError)"
proof -
  let ?D = "ch * 16 * 4 * 4"
  let ?B = "(N * hh * ww) div 16"
  from wf have chd: "dis_disc_ch d1 = ch" 
    and l1: "wf_linear (dis_linear1 d1) ?D 1" and l2: "wf_linear (dis_linear2 d1) de ?D"
    by (simp_all add: wf_discriminator_def)
  have n: "numel out = N * (ch * 16) * hh * ww" using out by (simp add: numel_def)
  have D: "0 < ?D" using ch by simp
  note v = view_rows [OF D, of out, unfolded n flat_rows [OF ch]]
  show ?thesis
  proof (cases "(N * hh * ww) mod 16 = 0")
    case False
    then show ?thesis
      using f v chd by (simp add: SnganDiscriminator_forward_def result_shape_def)
  next
    case True
    let ?o = "Tensor [?B, ?D] (data out)"
    have v': "view out [- 1, int ?D] = Inr ?o" using v True by simp
    obtain l2' hp where 2: "Linear_forward (dis_linear2 d1) h = Inr (l2', hp)"
      and hp: "shape hp = [N, ?D]"
      using Linear_forward_returns [OF l2 h] by (auto simp: returns_def)
    have o: "shape ?o = [?B, ?D]" by simp
    show ?thesis
    proof (cases "?B = N \<or> ?B = 1 \<or> N = 1")
      case False
      then have "t_mul ?o hp = Inl RuntimeError"
        unfolding t_mul_def broadcast2_rows [OF o hp] by simp
      then show ?thesis
        using f v' chd 2 True False
        by (simp add: SnganDiscriminator_forward_def result_shape_def)
    next
      case compat: True
      let ?B' = "if ?B = 1 then N else ?B"
      obtain pr where 3: "t_mul ?o hp = Inr pr" and pr: "shape pr = [?B', ?D]"
        unfolding t_mul_def broadcast2_rows [OF o hp] using compat by simp
      obtain oh where 4: "sum_dim1 pr = Inr oh" and oh: "shape oh = [?B', 1]"
        using sum_dim1_shape [OF pr] by auto
      obtain l1' lo where 5: "Linear_forward (dis_linear1 d1) ?o = Inr (l1', lo)"
        and lo: "shape lo = [?B, 1]"
        using Linear_forward_returns [OF l1 o] by (auto simp: returns_def)
      have c2: "?B = ?B' \<or> ?B = 1 \<or> ?B' = 1" using compat by auto
      obtain s where 6: "t_add lo oh = Inr s" and s: "shape s = [if ?B = 1 then ?B' else ?B, 1]"
        unfolding t_add_def broadcast2_rows [OF lo oh] using c2 by simp
      have 7: "view s [- 1, 1] = Inr (Tensor [if ?B = 1 then ?B' else ?B, 1] (data s))"
        unfolding view_column using s by (simp add: numel_def)
      have "0 < ?B" if "N = 1"
      proof -
        have "16 dvd hh * ww" using True that by (simp add: dvd_eq_mod_eq_0)
        moreover have "0 < hh * ww" using pos by simp
        ultimately have "16 \<le> hh * ww" by (rule dvd_imp_le)
        then show ?thesis using that by simp
      qed
      moreover have "0 < N" if "?B = 1"
        using that by (cases "N = 0") simp_all
      ultimately have mx: "(if ?B = 1 then ?B' else ?B) = max ?B N" using compat by auto
      have "result_shape (SnganDiscriminator_forward d x h) =
              Inr [if ?B = 1 then ?B' else ?B, 1]"
        using f v' chd 2 3 4 5 6 7 by (simp add: SnganDiscriminator_forward_def result_shape_def)
      then show ?thesis using True compat mx by simp
    qed
  qed
qed

lemma wf_spectral_norm_conv:
  "wf_conv cv cin cout k pad \<Longrightarrow> wf_sn_conv (spectral_norm_conv src cv) cin cout k pad"
  by (simp add: spectral_norm_conv_def wf_sn_conv_def wf_conv_def)

lemma wf_disc_convs_init:
  assumes "db_conv1 b = spectral_norm_conv s1 (Conv2d_init s1' cin cout 3 1 1 wb)"
    "db_conv2 b = spectral_norm_conv s2 (Conv2d_init s2' cout cout 3 1 1 wb)"
    "db_bypass_conv b = spectral_norm_conv s3 (Conv2d_init s3' cin cout 1 1 0 wb)"
  shows "wf_disc_convs b cin cout"
  unfolding wf_disc_convs_def assms
  by (intro conjI wf_spectral_norm_conv wf_Conv2d_init) simp_all

lemma wf_ResBlockDiscriminator_init:
  "wf_res_block (ResBlockDiscriminator_init src cin cout stride) cin cout stride"
  unfolding wf_res_block_def
  by (intro conjI wf_disc_convs_init [where wb = bias])
     (simp_all add: ResBlockDiscriminator_init_def)

lemma wf_FirstResBlockDiscriminator_init:
  "wf_first_block (FirstResBlockDiscriminator_init src cin cout stride) cin cout"
  unfolding wf_first_block_def
  by (intro conjI wf_disc_convs_init [where wb = bias])
     (simp_all add: FirstResBlockDiscriminator_init_def)

lemma wf_SnganDiscriminator_init:
  "wf_discriminator (SnganDiscriminator_init src de ch) de ch"
  by (simp add: wf_discriminator_def SnganDiscriminator_init_def wf_ResBlockDiscriminator_init
      wf_FirstResBlockDiscriminator_init spectral_norm_linear_def)
     (simp add: wf_linear_def Linear_init_def wf_bias_def)

lemma SnganDiscriminator_forward_wf_out:
  "SnganDiscriminator_forward d x h = Inr (d', out) \<Longrightarrow> wf_tensor out"
  unfolding SnganDiscriminator_forward_def
  by (auto simp: ebind_eq_Inr view_column t_add_def broadcast2_def Let_def wf_tensor_def
      numel_def tabulate_def split: option.splits)

lemma result_shape_Inr:
  "result_shape r = Inr s \<longleftrightarrow> (\<exists>st t. r = Inr (st, t) \<and> shape t = s)"
  by (auto simp: result_shape_def split: sum.splits)

lemma returns_result_shape: "returns r Q s \<Longrightarrow> result_shape r = Inr s"
  by (auto simp: returns_def result_shape_def)

lemma SnganDiscriminator_forward_result_shape:
  assumes wf: "wf_discriminator d de ch" and ch: "0 < ch"
    and x: "shape x = [N, 3, H, Wd]" and h: "shape h = [N, de]"
  shows "result_shape (SnganDiscriminator_forward d x h) = disc_result_shape N H Wd"
proof (cases "H < 16 \<or> Wd < 16")
  case True
  from SnganDiscriminator_features_small [OF wf x True]
  show ?thesis using True
    by (simp add: SnganDiscriminator_forward_def result_shape_def disc_result_shape_def)
next
  case False
  then have big: "16 \<le> H" "16 \<le> Wd" by auto
  from SnganDiscriminator_schedule [OF wf x big]
  obtain d1 t5 where f: "SnganDiscriminator_features d x = Inr (d1, relu t5)"
    and t5: "shape t5 = [N, ch * 16, H div 16, Wd div 16]"
    and d1: "wf_discriminator d1 de ch"
    by blast
  have s: "shape (relu t5) = [N, ch * 16, H div 16, Wd div 16]" using t5 by simp
  have pos: "0 < H div 16" "0 < Wd div 16" using big by (simp_all add: div_greater_zero_iff)
  from SnganDiscriminator_head_shape [OF f s d1 ch h pos]
  show ?thesis using False by (simp add: disc_result_shape_def flattened_rows_def)
qed

section \<open>The discriminator's forward pass\<close>

text \<open>
  Claim C2. For every batch size \<open>N\<close>, the discriminator's forward
  pass on an image tensor of shape \<open>(N, 3, 64, 64)\<close> and a label embedding of shape
  \<open>(N, embed_dim)\<close> returns a score tensor of shape \<open>(N, 1)\<close>.
\<close>

theorem discriminator_forward_shape:
  assumes "wf_discriminator d de ch" and "0 < ch"
    and "shape x = [N, 3, 64, 64]" and "shape h = [N, de]"
  shows "\<exists>d' out. SnganDiscriminator_forward d x h = Inr (d', out) \<and>
           shape out = [N, 1] \<and> wf_tensor out"
proof -
  have "result_shape (SnganDiscriminator_forward d x h) = disc_result_shape N 64 64"
    by (rule SnganDiscriminator_forward_result_shape [OF assms(1-4)])
  also have "\<dots> = Inr [N, 1]"
    by (simp add: disc_result_shape_def flattened_rows_def)
  finally obtain d' out where "SnganDiscriminator_forward d x h = Inr (d', out)" "shape out = [N, 1]"
    by (auto simp: result_shape_Inr)
  then show ?thesis using SnganDiscriminator_forward_wf_out by blast
qed

theorem discriminator_forward_shape_witness:
  "\<exists>d' out. SnganDiscriminator_forward (SnganDiscriminator_init (\<lambda>k i. 0) 1 1)
       (Tensor [2, 3, 64, 64] (replicate 24576 0)) (Tensor [2, 1] [0, 0]) = Inr (d', out) \<and>
     shape out = [2, 1]"
proof -
  from discriminator_forward_shape
    [OF wf_SnganDiscriminator_init [of "\<lambda>k i. 0" 1 1],
     where x = "Tensor [2, 3, 64, 64] (replicate 24576 0)" and N = 2 and h = "Tensor [2, 1] [0, 0]"]
  show ?thesis by auto
qed

section \<open>Resolution through the discriminator blocks\<close>

text \<open>
  Claim C7, as stated, fails: a stride-2 block does not halve every feature map exactly.
  On a 3x3 map it returns a 1x1 map, and on a 1x1 map the pooling raises.
\<close>

theorem disc_block_halving_counterexample:
  "result_shape (ResBlockDiscriminator_forward (ResBlockDiscriminator_init (\<lambda>k i. 0) 1 1 2)
      (Tensor [1, 1, 3, 3] [0, 0, 0, 0, 0, 0, 0, 0, 0])) = Inr [1, 1, 1, 1] \<and>
   ResBlockDiscriminator_forward (ResBlockDiscriminator_init (\<lambda>k i. 0) 1 1 2)
      (Tensor [1, 1, 1, 1] [0]) = Inl RuntimeError"
proof
  have "returns (ResBlockDiscriminator_forward (ResBlockDiscriminator_init (\<lambda>k i. 0) 1 1 2)
      (Tensor [1, 1, 3, 3] [0, 0, 0, 0, 0, 0, 0, 0, 0]))
      (\<lambda>b'. wf_res_block b' 1 1 2) [1, 1, 3 div 2, 3 div 2]"
    by (rule ResBlockDiscriminator_forward_stride2_returns [OF wf_ResBlockDiscriminator_init])
       simp_all
  from returns_result_shape [OF this]
  show "result_shape (ResBlockDiscriminator_forward (ResBlockDiscriminator_init (\<lambda>k i. 0) 1 1 2)
      (Tensor [1, 1, 3, 3] [0, 0, 0, 0, 0, 0, 0, 0, 0])) = Inr [1, 1, 1, 1]"
    by simp
next
  show "ResBlockDiscriminator_forward (ResBlockDiscriminator_init (\<lambda>k i. 0) 1 1 2)
      (Tensor [1, 1, 1, 1] [0]) = Inl RuntimeError"
  proof -
    have x: "shape (Tensor [1, 1, 1, 1] [0]) = [1, 1, 1, 1]" by simp
    have s: "(1::nat) < 2 \<or> (1::nat) < 2" by simp
    show ?thesis
      by (rule ResBlockDiscriminator_forward_stride2_small [OF wf_ResBlockDiscriminator_init x s])
  qed
qed

text \<open>
  Claim C7, amended. On every feature map whose height and width are at least 2, a
  discriminator residual block constructed with stride 2 returns a map of height
  \<open>H div 2\<close> and width \<open>W div 2\<close> (exactly half when they are even); the stride-1 block
  returns a 4x4 map on a 4x4 map; and on a 64x64 image the discriminator's blocks return
  maps of 32, 16, 8, 4 and 4 rows and columns.
\<close>

theorem disc_block_resolution:
  assumes "wf_res_block b cin cout 2" and "shape y = [M, cin, H, Wd]" and "2 \<le> H" and "2 \<le> Wd"
    and "wf_res_block b1 cin1 cout1 1" and "shape y1 = [M1, cin1, 4, 4]"
    and "wf_discriminator d de ch" and "shape x = [N, 3, 64, 64]"
  shows "result_shape (ResBlockDiscriminator_forward b y) = Inr [M, cout, H div 2, Wd div 2] \<and>
         result_shape (ResBlockDiscriminator_forward b1 y1) = Inr [M1, cout1, 4, 4] \<and>
         (\<exists>b10 t1 b11 t2 b12 t3 b2 t4 b30 t5.
            FirstResBlockDiscriminator_forward (dis_discblock1_0 d) x = Inr (b10, t1) \<and>
            shape t1 = [N, ch, 32, 32] \<and>
            ResBlockDiscriminator_forward (dis_discblock1_1 d) t1 = Inr (b11, t2) \<and>
            shape t2 = [N, ch * 2, 16, 16] \<and>
            ResBlockDiscriminator_forward (dis_discblock1_2 d) t2 = Inr (b12, t3) \<and>
            shape t3 = [N, ch * 4, 8, 8] \<and>
            ResBlockDiscriminator_forward (dis_discblock2 d) t3 = Inr (b2, t4) \<and>
            shape t4 = [N, ch * 8, 4, 4] \<and>
            ResBlockDiscriminator_forward (dis_discblock3_0 d) t4 = Inr (b30, t5) \<and>
            shape t5 = [N, ch * 16, 4, 4])"
proof (intro conjI)
  show "result_shape (ResBlockDiscriminator_forward b y) = Inr [M, cout, H div 2, Wd div 2]"
    by (rule returns_result_shape [OF ResBlockDiscriminator_forward_stride2_returns [OF assms(1-4)]])
  have "returns (ResBlockDiscriminator_forward b1 y1) (\<lambda>b'. wf_res_block b' cin1 cout1 1)
          [M1, cout1, 4, 4]"
    by (rule ResBlockDiscriminator_forward_stride1_returns [OF assms(5,6)]) simp_all
  then show "result_shape (ResBlockDiscriminator_forward b1 y1) = Inr [M1, cout1, 4, 4]"
    by (rule returns_result_shape)
  have "(16::nat) \<le> 64" by simp
  from SnganDiscriminator_schedule [OF assms(7,8) this this]
  show "\<exists>b10 t1 b11 t2 b12 t3 b2 t4 b30 t5.
            FirstResBlockDiscriminator_forward (dis_discblock1_0 d) x = Inr (b10, t1) \<and>
            shape t1 = [N, ch, 32, 32] \<and>
            ResBlockDiscriminator_forward (dis_discblock1_1 d) t1 = Inr (b11, t2) \<and>
            shape t2 = [N, ch * 2, 16, 16] \<and>
            ResBlockDiscriminator_forward (dis_discblock1_2 d) t2 = Inr (b12, t3) \<and>
            shape t3 = [N, ch * 4, 8, 8] \<and>
            ResBlockDiscriminator_forward (dis_discblock2 d) t3 = Inr (b2, t4) \<and>
            shape t4 = [N, ch * 8, 4, 4] \<and>
            ResBlockDiscriminator_forward (dis_discblock3_0 d) t4 = Inr (b30, t5) \<and>
            shape t5 = [N, ch * 16, 4, 4]"
    by simp blast
qed

theorem disc_block_resolution_witness:
  "result_shape (ResBlockDiscriminator_forward (ResBlockDiscriminator_init (\<lambda>k i. 0) 1 2 2)
      (Tensor [1, 1, 6, 4] (replicate 24 0))) = Inr [1, 2, 3, 2] \<and>
   result_shape (ResBlockDiscriminator_forward (ResBlockDiscriminator_init (\<lambda>k i. 0) 1 2 1)
      (Tensor [1, 1, 4, 4] (replicate 16 0))) = Inr [1, 2, 4, 4] \<and>
   result_shape (FirstResBlockDiscriminator_forward
      (dis_discblock1_0 (SnganDiscriminator_init (\<lambda>k i. 0) 1 1))
      (Tensor [1, 3, 64, 64] (replicate 12288 0))) = Inr [1, 1, 32, 32]"
proof -
  from disc_block_resolution
    [OF wf_ResBlockDiscriminator_init [of "\<lambda>k i. 0" 1 2 2] _ _ _
        wf_ResBlockDiscriminator_init [of "\<lambda>k i. 0" 1 2 1] _
        wf_SnganDiscriminator_init [of "\<lambda>k i. 0" 1 1],
     of "Tensor [1, 1, 6, 4] (replicate 24 0)" 1 6 4
        "Tensor [1, 1, 4, 4] (replicate 16 0)" 1
        "Tensor [1, 3, 64, 64] (replicate 12288 0)" 1]
  show ?thesis by (auto simp: result_shape_def)
qed

section \<open>The flattening of the discriminator and the batch dimension\<close>

text \<open>
  Claim C10, as stated, fails: 64x64 is not the only image size on which the discriminator
  returns as many scores as it was given images. One image of 65x65 pixels gives one
  score, and four images of 32x32 pixels give four scores (their features are flattened
  into a single row, which is broadcast against the four embedding rows).
\<close>

theorem discriminator_batch_counterexample:
  "result_shape (SnganDiscriminator_forward (SnganDiscriminator_init (\<lambda>k i. 0) 1 1)
      (Tensor [1, 3, 65, 65] (replicate 12675 0)) (Tensor [1, 1] [0])) = Inr [1, 1] \<and>
   result_shape (SnganDiscriminator_forward (SnganDiscriminator_init (\<lambda>k i. 0) 1 1)
      (Tensor [4, 3, 32, 32] (replicate 12288 0)) (Tensor [4, 1] [0, 0, 0, 0])) = Inr [4, 1]"
proof
  have "result_shape (SnganDiscriminator_forward (SnganDiscriminator_init (\<lambda>k i. 0) 1 1)
      (Tensor [1, 3, 65, 65] (replicate 12675 0)) (Tensor [1, 1] [0])) = disc_result_shape 1 65 65"
    by (rule SnganDiscriminator_forward_result_shape [OF wf_SnganDiscriminator_init]) simp_all
  then show "result_shape (SnganDiscriminator_forward (SnganDiscriminator_init (\<lambda>k i. 0) 1 1)
      (Tensor [1, 3, 65, 65] (replicate 12675 0)) (Tensor [1, 1] [0])) = Inr [1, 1]"
    by (simp add: disc_result_shape_def flattened_rows_def)
next
  have "result_shape (SnganDiscriminator_forward (SnganDiscriminator_init (\<lambda>k i. 0) 1 1)
      (Tensor [4, 3, 32, 32] (replicate 12288 0)) (Tensor [4, 1] [0, 0, 0, 0])) =
        disc_result_shape 4 32 32"
    by (rule SnganDiscriminator_forward_result_shape [OF wf_SnganDiscriminator_init]) simp_all
  then show "result_shape (SnganDiscriminator_forward (SnganDiscriminator_init (\<lambda>k i. 0) 1 1)
      (Tensor [4, 3, 32, 32] (replicate 12288 0)) (Tensor [4, 1] [0, 0, 0, 0])) = Inr [4, 1]"
    by (simp add: disc_result_shape_def flattened_rows_def)
qed

lemma disc_result_shape_same_batch:
  assumes N: "0 < N"
  shows "disc_result_shape N H Wd = Inr [N, 1] \<longleftrightarrow>
     16 \<le> H \<and> 16 \<le> Wd \<and>
     ((H div 16) * (Wd div 16) = 16 \<or> N * (H div 16) * (Wd div 16) = 16)"
proof (cases "H < 16 \<or> Wd < 16")
  case True
  then show ?thesis by (auto simp: disc_result_shape_def)
next
  case False
  define m where "m = (H div 16) * (Wd div 16)"
  have big: "16 \<le> H" "16 \<le> Wd" using False by auto
  have m: "0 < m" using big by (simp add: m_def div_greater_zero_iff)
  have e: "N * (H div 16) * (Wd div 16) = N * m" by (simp add: m_def)
  show ?thesis
  proof (cases "(N * m) mod 16 = 0")
    case nd: False
    have "m \<noteq> 16" using nd by auto
    moreover have "N * m \<noteq> 16" using nd by auto
    ultimately show ?thesis
      using False nd by (simp add: disc_result_shape_def e m_def [symmetric])
  next
    case True
    then obtain B where B: "N * m = 16 * B" by (auto simp: mod_eq_0_iff_dvd)
    have r: "flattened_rows N H Wd = B" by (simp add: flattened_rows_def e B)
    have Bpos: "0 < B" using B N m by (cases "B = 0") auto
    have 1: "B = N \<longleftrightarrow> m = 16" using B N by auto
    have 2: "B = 1 \<longleftrightarrow> N * m = 16" using B by auto
    have "disc_result_shape N H Wd = Inr [N, 1] \<longleftrightarrow> (B = N \<or> B = 1)"
      using False True Bpos N by (auto simp: disc_result_shape_def e r)
    then show ?thesis
      using big 1 2 by (simp add: e m_def [symmetric])
  qed
qed

text \<open>
  Claim C10, amended. The discriminator flattens its feature map with a reshape to
  \<open>(-1, disc_ch*16*4*4)\<close>. On \<open>N\<close> three-channel images of \<open>H \<times> W\<close> pixels with
  \<open>N\<close> embedding rows, the forward pass returns \<open>N\<close> scores exactly when \<open>H\<close> and
  \<open>W\<close> are at least 16 and either \<open>(H div 16) * (W div 16) = 16\<close> (as for 64x64) or
  \<open>N * (H div 16) * (W div 16) = 16\<close>; on every other size it raises (an image side
  below 16, an element count that the row length does not divide, rows that do not
  broadcast) or returns a different number of scores.
\<close>

theorem discriminator_batch_dimension:
  assumes "wf_discriminator d de ch" and "0 < ch" and "0 < N"
    and "shape x = [N, 3, H, Wd]" and "shape h = [N, de]"
  shows "result_shape (SnganDiscriminator_forward d x h) = disc_result_shape N H Wd \<and>
         (result_shape (SnganDiscriminator_forward d x h) = Inr [N, 1] \<longleftrightarrow>
            16 \<le> H \<and> 16 \<le> Wd \<and>
            ((H div 16) * (Wd div 16) = 16 \<or> N * (H div 16) * (Wd div 16) = 16))"
  using SnganDiscriminator_forward_result_shape [OF assms(1,2,4,5)]
    disc_result_shape_same_batch [OF assms(3), of H Wd]
  by simp

theorem discriminator_batch_dimension_witness:
  "result_shape (SnganDiscriminator_forward (SnganDiscriminator_init (\<lambda>k i. 0) 1 1)
      (Tensor [2, 3, 64, 64] (replicate 24576 0)) (Tensor [2, 1] [0, 0])) = Inr [2, 1] \<and>
   result_shape (SnganDiscriminator_forward (SnganDiscriminator_init (\<lambda>k i. 0) 1 1)
      (Tensor [1, 3, 128, 128] (replicate 49152 0)) (Tensor [1, 1] [0])) = Inr [4, 1] \<and>
   result_shape (SnganDiscriminator_forward (SnganDiscriminator_init (\<lambda>k i. 0) 1 1)
      (Tensor [2, 3, 128, 128] (replicate 98304 0)) (Tensor [2, 1] [0, 0])) = Inl RuntimeError"
proof -
  note w = wf_SnganDiscriminator_init [of "\<lambda>k i. 0" 1 1]
  from discriminator_batch_dimension [OF w, of 2 "Tensor [2, 3, 64, 64] (replicate 24576 0)" 64 64
      "Tensor [2, 1] [0, 0]"]
  have 1: "result_shape (SnganDiscriminator_forward (SnganDiscriminator_init (\<lambda>k i. 0) 1 1)
      (Tensor [2, 3, 64, 64] (replicate 24576 0)) (Tensor [2, 1] [0, 0])) = Inr [2, 1]"
    by (simp add: disc_result_shape_def flattened_rows_def)
  from discriminator_batch_dimension [OF w, of 1 "Tensor [1, 3, 128, 128] (replicate 49152 0)" 128 128
      "Tensor [1, 1] [0]"]
  have 2: "result_shape (SnganDiscriminator_forward (SnganDiscriminator_init (\<lambda>k i. 0) 1 1)
      (Tensor [1, 3, 128, 128] (replicate 49152 0)) (Tensor [1, 1] [0])) = Inr [4, 1]"
    by (simp add: disc_result_shape_def flattened_rows_def)
  from discriminator_batch_dimension [OF w, of 2 "Tensor [2, 3, 128, 128] (replicate 98304 0)" 128 128
      "Tensor [2, 1] [0, 0]"]
  have 3: "result_shape (SnganDiscriminator_forward (SnganDiscriminator_init (\<lambda>k i. 0) 1 1)
      (Tensor [2, 3, 128, 128] (replicate 98304 0)) (Tensor [2, 1] [0, 0])) = Inl RuntimeError"
    by (simp add: disc_result_shape_def flattened_rows_def)
  show ?thesis using 1 2 3 by simp
qed

section \<open>The first discriminator block\<close>

lemma FirstResBlockDiscriminator_forward_path:
  assumes "db_model b = [D_Conv Conv1, D_ReLU, D_Conv Conv2, D_AvgPool2d 2 2]"
    and "db_bypass b = [D_AvgPool2d 2 2, D_Conv BypassConv]"
  shows "FirstResBlockDiscriminator_forward b x = first_block_path b x"
  unfolding FirstResBlockDiscriminator_forward_def first_block_path_def
  by (simp add: assms ebind_case split: sum.splits prod.splits)

lemma first_block_main_shape:
  assumes wf: "wf_first_block b cin cout" and x: "shape x = [N, cin, H, Wd]"
    and big: "2 \<le> H" "2 \<le> Wd"
  shows "result_shape (db_sequential b (db_model b) x) = Inr [N, cout, H div 2, Wd div 2]"
proof -
  from wf have cs: "wf_disc_convs b cin cout"
    and m: "db_model b = [D_Conv Conv1, D_ReLU, D_Conv Conv2, D_AvgPool2d 2 2]"
    by (simp_all add: wf_first_block_def)
  from db_two_convs [OF cs x] big
  obtain cv1 t1 cv2 t2 where 1: "Conv2d_forward (db_conv1 b) x = Inr (cv1, t1)"
    and 2: "Conv2d_forward (db_conv2 b) (relu t1) = Inr (cv2, t2)"
    and t2: "shape t2 = [N, cout, H, Wd]"
    by auto
  obtain t3 where 3: "avg_pool2d 2 2 t2 = Inr t3" and t3: "shape t3 = [N, cout, H div 2, Wd div 2]"
    using avg_pool2d_shape [OF t2 big] by auto
  show ?thesis using 1 2 3 t3 by (simp add: m result_shape_def)
qed

lemma first_block_bypass_shape:
  assumes wf: "wf_first_block b cin cout" and x: "shape x = [N, cin, H, Wd]"
    and big: "2 \<le> H" "2 \<le> Wd"
  shows "result_shape (db_sequential b (db_bypass b) x) = Inr [N, cout, H div 2, Wd div 2]"
proof -
  from wf have cs: "wf_disc_convs b cin cout"
    and y: "db_bypass b = [D_AvgPool2d 2 2, D_Conv BypassConv]"
    by (simp_all add: wf_first_block_def)
  obtain t4 where 4: "avg_pool2d 2 2 x = Inr t4" and t4: "shape t4 = [N, cin, H div 2, Wd div 2]"
    using avg_pool2d_shape [OF x big] by auto
  have "1 \<le> H div 2" "1 \<le> Wd div 2" using big by auto
  from db_bypass_conv_returns [OF cs t4 this]
  obtain cvb t5 where 5: "Conv2d_forward (db_bypass_conv b) t4 = Inr (cvb, t5)"
    and t5: "shape t5 = [N, cout, H div 2, Wd div 2]"
    by auto
  show ?thesis using 4 5 t5 by (simp add: y result_shape_def)
qed

text \<open>
  Claim C5. The first discriminator residual block applies no activation before its first
  convolution, downsamples by 2 on the main and on the bypass path, and places the 2x2
  average pooling after the two convolutions on the main path and before the 1x1
  convolution on the bypass path.
\<close>

theorem first_block_structure:
  assumes "shape x = [N, cin, H, Wd]" and "2 \<le> H" and "2 \<le> Wd"
    and "b = FirstResBlockDiscriminator_init src cin cout stride"
  shows "db_model b = [D_Conv Conv1, D_ReLU, D_Conv Conv2, D_AvgPool2d 2 2] \<and>
         db_bypass b = [D_AvgPool2d 2 2, D_Conv BypassConv] \<and>
         FirstResBlockDiscriminator_forward b x = first_block_path b x \<and>
         result_shape (db_sequential b (db_model b) x) = Inr [N, cout, H div 2, Wd div 2] \<and>
         result_shape (db_sequential b (db_bypass b) x) = Inr [N, cout, H div 2, Wd div 2] \<and>
         result_shape (FirstResBlockDiscriminator_forward b x) = Inr [N, cout, H div 2, Wd div 2]"
proof -
  have wf: "wf_first_block b cin cout"
    unfolding assms(4) by (rule wf_FirstResBlockDiscriminator_init)
  then have m: "db_model b = [D_Conv Conv1, D_ReLU, D_Conv Conv2, D_AvgPool2d 2 2]"
    and y: "db_bypass b = [D_AvgPool2d 2 2, D_Conv BypassConv]"
    by (simp_all add: wf_first_block_def)
  show ?thesis
    using m y FirstResBlockDiscriminator_forward_path [OF m y, of x]
      first_block_main_shape [OF wf assms(1-3)] first_block_bypass_shape [OF wf assms(1-3)]
      returns_result_shape [OF FirstResBlockDiscriminator_forward_returns [OF wf assms(1-3)]]
    by simp
qed

theorem first_block_structure_witness:
  "FirstResBlockDiscriminator_forward (FirstResBlockDiscriminator_init (\<lambda>k i. 0) 3 1 2)
       (Tensor [1, 3, 2, 2] (replicate 12 0)) =
     first_block_path (FirstResBlockDiscriminator_init (\<lambda>k i. 0) 3 1 2)
       (Tensor [1, 3, 2, 2] (replicate 12 0)) \<and>
   result_shape (FirstResBlockDiscriminator_forward (FirstResBlockDiscriminator_init (\<lambda>k i. 0) 3 1 2)
       (Tensor [1, 3, 2, 2] (replicate 12 0))) = Inr [1, 1, 1, 1]"
proof -
  have "shape (Tensor [1, 3, 2, 2] (replicate 12 0)) = [1, 3, 2, 2]" "(2::nat) \<le> 2"
    by simp_all
  from first_block_structure [OF this(1) this(2) this(2) refl, of "\<lambda>k i. 0" 1 2]
  show ?thesis by (elim conjE) simp
qed

text \<open>
  Claim C8. The \<open>stride\<close> argument of the first discriminator residual block has no
  effect: for any two stride values the constructed blocks are the same, compute the same
  function, and pool with kernel 2 and stride 2, so that the block always downsamples
  by 2.
\<close>

theorem first_block_stride_ignored:
  "FirstResBlockDiscriminator_init src cin cout s = FirstResBlockDiscriminator_init src cin cout s' \<and>
   FirstResBlockDiscriminator_forward (FirstResBlockDiscriminator_init src cin cout s) x =
     FirstResBlockDiscriminator_forward (FirstResBlockDiscriminator_init src cin cout s') x \<and>
   db_model (FirstResBlockDiscriminator_init src cin cout s) =
     [D_Conv Conv1, D_ReLU, D_Conv Conv2, D_AvgPool2d 2 2] \<and>
   db_bypass (FirstResBlockDiscriminator_init src cin cout s) =
     [D_AvgPool2d 2 2, D_Conv BypassConv] \<and>
   (shape x = [N, cin, H, Wd] \<and> 2 \<le> H \<and> 2 \<le> Wd \<longrightarrow>
      result_shape (FirstResBlockDiscriminator_forward
        (FirstResBlockDiscriminator_init src cin cout s) x) = Inr [N, cout, H div 2, Wd div 2])"
proof -
  have e: "FirstResBlockDiscriminator_init src cin cout s =
           FirstResBlockDiscriminator_init src cin cout s'"
    by (simp add: FirstResBlockDiscriminator_init_def)
  have r: "result_shape (FirstResBlockDiscriminator_forward
        (FirstResBlockDiscriminator_init src cin cout s) x) = Inr [N, cout, H div 2, Wd div 2]"
    if "shape x = [N, cin, H, Wd]" "2 \<le> H" "2 \<le> Wd"
    by (rule returns_result_shape
        [OF FirstResBlockDiscriminator_forward_returns [OF wf_FirstResBlockDiscriminator_init that]])
  show ?thesis
    using e r by (simp add: FirstResBlockDiscriminator_init_def)
qed

theorem first_block_stride_ignored_witness:
  "FirstResBlockDiscriminator_init (\<lambda>k i. 0) 3 1 1 = FirstResBlockDiscriminator_init (\<lambda>k i. 0) 3 1 2 \<and>
   result_shape (FirstResBlockDiscriminator_forward (FirstResBlockDiscriminator_init (\<lambda>k i. 0) 3 1 1)
       (Tensor [1, 3, 64, 64] (replicate 12288 0))) = Inr [1, 1, 32, 32]"
proof -
  note t = first_block_stride_ignored
    [of "\<lambda>k i. 0" 3 1 1 2 "Tensor [1, 3, 64, 64] (replicate 12288 0)" 1 64 64]
  have a: "shape (Tensor [1, 3, 64, 64] (replicate 12288 0)) = [1, 3, 64, 64] \<and>
           (2::nat) \<le> 64 \<and> (2::nat) \<le> 64"
    by simp
  have "result_shape (FirstResBlockDiscriminator_forward
          (FirstResBlockDiscriminator_init (\<lambda>k i. 0) 3 1 1)
          (Tensor [1, 3, 64, 64] (replicate 12288 0))) = Inr [1, 1, 64 div 2, 64 div 2]"
    using t a by blast
  moreover have "FirstResBlockDiscriminator_init (\<lambda>k i. 0) 3 1 1 =
      FirstResBlockDiscriminator_init (\<lambda>k i. 0) 3 1 2"
    using t by blast
  ultimately show ?thesis by simp
qed

section \<open>The conditional normalisation layer\<close>

lemma flat_less: "a < A \<Longrightarrow> b < B \<Longrightarrow> a * B + b < A * (B::nat)"
proof -
  assume a: "a < A" and b: "b < B"
  have "a * B + b < a * B + B" using b by simp
  also have "\<dots> = (a + 1) * B" by simp
  also have "\<dots> \<le> A * B" using a by (intro mult_le_mono1) simp
  finally show ?thesis .
qed

lemma flat_div: "b < B \<Longrightarrow> (a * B + b) div B = (a::nat)"
  by simp

lemma flat_mod: "b < B \<Longrightarrow> (a * B + b) mod B = (b::nat)"
  by simp

lemma flat4:
  fixes n c h w N C H W :: nat
  assumes "n < N" "c < C" "h < H" "w < W"
  defines "i \<equiv> ((n * C + c) * H + h) * W + w"
  shows "i < N * C * H * W"
    and "i div (C * H * W) = n"
    and "i mod (C * H * W) div (H * W) = c"
    and "i div (H * W) mod C = c"
proof -
  define K where "K = H * W"
  define L where "L = C * K"
  define r where "r = h * W + w"
  define q where "q = c * K + r"
  have r: "r < K" unfolding r_def K_def using assms(3,4) by (rule flat_less)
  have nc: "n * C + c < N * C" using assms(1,2) by (rule flat_less)
  have q: "q < L" unfolding q_def L_def using assms(2) r by (rule flat_less)
  have i1: "i = (n * C + c) * K + r" by (simp add: i_def K_def r_def algebra_simps)
  have i2: "i = n * L + q" by (simp add: i_def L_def K_def q_def r_def algebra_simps)
  have L: "C * H * W = L" by (simp add: L_def K_def mult.assoc)
  have "i < (N * C) * K" unfolding i1 using nc r by (rule flat_less)
  then show "i < N * C * H * W" by (simp add: K_def mult.assoc)
  show "i div (C * H * W) = n" unfolding L i2 using q by (rule flat_div)
  have "i mod L = q" unfolding i2 using q by (rule flat_mod)
  moreover have "q div K = c" unfolding q_def using r by (rule flat_div)
  ultimately show "i mod (C * H * W) div (H * W) = c" unfolding L K_def by simp
  have "i div K = n * C + c" unfolding i1 using r by (rule flat_div)
  moreover have "(n * C + c) mod C = c" using assms(2) by (rule flat_mod)
  ultimately show "i div (H * W) mod C = c" unfolding K_def by simp
qed

lemma bidx_chan_unfold:
  "bidx [N, C, H, W] [N, C, 1, 1] i =
     (if N = 1 then 0 else i div (C * H * W)) * C +
     (if C = 1 then 0 else i mod (C * H * W) div (H * W))"
  by (simp add: mult.assoc)

lemma bidx_chan:
  assumes "n < N" "c < C" "h < H" "w < W"
  shows "bidx [N, C, H, W] [N, C, 1, 1] (((n * C + c) * H + h) * W + w) = n * C + c"
proof -
  note f = flat4 [OF assms]
  have n: "(if N = 1 then 0 else (((n * C + c) * H + h) * W + w) div (C * H * W)) = n"
    using f(2) assms(1) by (cases "N = 1") simp_all
  have c: "(if C = 1 then 0 else (((n * C + c) * H + h) * W + w) mod (C * H * W) div (H * W)) = c"
    using f(3) assms(2) by (cases "C = 1") simp_all
  show ?thesis unfolding bidx_chan_unfold n c ..
qed

lemma BatchNorm2d_forward_result:
  assumes "wf_bn bn C" "shape x = [N, C, H, W]" "N * H * W \<noteq> 1"
  shows "\<exists>bn'. BatchNorm2d_forward bn x = Inr (bn', bn_apply bn (bn_mu bn x) (bn_sigma2 bn x) x)"
proof (cases "bn_training bn")
  case True
  then have "bn_mu bn x = chan_mean x" "bn_sigma2 bn x = chan_var x"
    by (simp_all add: bn_mu_def bn_sigma2_def fun_eq_iff)
  then show ?thesis
    using assms True by (simp add: BatchNorm2d_forward_def Let_def wf_bn_def)
next
  case False
  then have "bn_mu bn x = (\<lambda>c. bn_running_mean bn ! c)" "bn_sigma2 bn x = (\<lambda>c. bn_running_var bn ! c)"
    by (simp_all add: bn_mu_def bn_sigma2_def fun_eq_iff)
  then show ?thesis
    using assms False by (simp add: BatchNorm2d_forward_def Let_def wf_bn_def)
qed

lemma at4_flat: "shape t = [N, C, H, W] \<Longrightarrow>
   at4 t n c h w = data t ! (((n * C + c) * H + h) * W + w)"
  by (simp add: at4_def)

lemma bn_apply_at4:
  assumes "bn_affine bn = None" "shape x = [N, C, H, W]" "wf_tensor x"
    "n < N" "c < C" "h < H" "w < W"
  shows "at4 (bn_apply bn mu var x) n c h w = (at4 x n c h w - mu c) / sqrt (var c + bn_eps)"
proof -
  note f = flat4 [OF assms(4-7)]
  have len: "length (data x) = N * C * H * W"
    using assms(2,3) by (simp add: wf_tensor_def mult.assoc)
  have sh: "shape (bn_apply bn mu var x) = [N, C, H, W]"
    using assms(2) by (simp add: bn_apply_def)
  have "data (bn_apply bn mu var x) ! (((n * C + c) * H + h) * W + w) =
          (data x ! (((n * C + c) * H + h) * W + w) - mu c) / sqrt (var c + bn_eps)"
    using f(1) f(4) len assms(1,2) by (simp add: bn_apply_def Let_def)
  then show ?thesis
    unfolding at4_flat [OF sh] at4_flat [OF assms(2)] .
qed

lemma Linear_forward_plain:
  assumes "ln_sn lin = None"
  shows "Linear_forward lin y = ebind (F_linear y (ln_weight lin) (ln_bias lin)) (\<lambda>out. Inr (lin, out))"
proof -
  have e: "lin \<lparr> ln_sn := None \<rparr> = lin" using assms by (cases lin) simp
  have "effective_weight (ln_training lin) (ln_weight lin) (ln_sn lin) = (None, ln_weight lin)"
    using assms by (simp add: effective_weight_def)
  then show ?thesis by (simp add: Linear_forward_def e)
qed

text \<open>
  Claim C3. The conditional normalisation layer first batch-normalises the feature map
  with no learned affine, computes \<open>gamma\<close> and \<open>beta\<close> from the label embedding by two
  separate linear projections without bias, one value per sample and channel, and returns
  exactly \<open>normalized + normalized * gamma + beta\<close>.
\<close>

theorem conditional_batchnorm_formula:
  assumes m: "wf_cbn m C de" and x: "shape x = [N, C, H, W]" "wf_tensor x"
    and one: "N * H * W \<noteq> 1" and y: "shape y = [N, de]" and C: "0 < C"
  shows "\<exists>m' normalized gamma beta out.
     BatchNorm2d_forward (cbn_bn m) x = Inr (cbn_bn m', normalized) \<and>
     F_linear y (ln_weight (cbn_embed_gamma m)) None = Inr gamma \<and>
     F_linear y (ln_weight (cbn_embed_beta m)) None = Inr beta \<and>
     ConditionalBatchNorm2d_forward m x y = Inr (m', out) \<and>
     shape out = [N, C, H, W] \<and>
     (\<forall>n<N. \<forall>c<C. \<forall>h<H. \<forall>w<W.
        at4 normalized n c h w =
          (at4 x n c h w - bn_mu (cbn_bn m) x c) / sqrt (bn_sigma2 (cbn_bn m) x c + bn_eps) \<and>
        at4 out n c h w =
          at4 normalized n c h w + at4 normalized n c h w * data gamma ! (n * C + c)
            + data beta ! (n * C + c))"
proof -
  let ?s = "[N, C, H, W]"
  from m have nf: "cbn_num_features m = C" and bn: "wf_bn (cbn_bn m) C"
    and aff: "bn_affine (cbn_bn m) = None"
    and lg: "wf_linear (cbn_embed_gamma m) de C" "ln_bias (cbn_embed_gamma m) = None"
      "ln_sn (cbn_embed_gamma m) = None"
    and lb: "wf_linear (cbn_embed_beta m) de C" "ln_bias (cbn_embed_beta m) = None"
      "ln_sn (cbn_embed_beta m) = None"
    by (simp_all add: wf_cbn_def)
  define xn where "xn = bn_apply (cbn_bn m) (bn_mu (cbn_bn m) x) (bn_sigma2 (cbn_bn m) x) x"
  obtain bn' where 1: "BatchNorm2d_forward (cbn_bn m) x = Inr (bn', xn)"
    using BatchNorm2d_forward_result [OF bn x(1) one] by (auto simp: xn_def)
  have xs: "shape xn = ?s" using x(1) by (simp add: xn_def bn_apply_def)
  obtain g where g: "F_linear y (ln_weight (cbn_embed_gamma m)) None = Inr g" "shape g = [N, C]"
    using F_linear_shape [OF y, of "ln_weight (cbn_embed_gamma m)" C None] lg(1)
    by (auto simp: wf_linear_def wf_bias_def)
  obtain b where b: "F_linear y (ln_weight (cbn_embed_beta m)) None = Inr b" "shape b = [N, C]"
    using F_linear_shape [OF y, of "ln_weight (cbn_embed_beta m)" C None] lb(1)
    by (auto simp: wf_linear_def wf_bias_def)
  have 2: "Linear_forward (cbn_embed_gamma m) y = Inr (cbn_embed_gamma m, g)"
    using Linear_forward_plain [OF lg(3), of y] lg(2) g(1) by simp
  have 3: "Linear_forward (cbn_embed_beta m) y = Inr (cbn_embed_beta m, b)"
    using Linear_forward_plain [OF lb(3), of y] lb(2) b(1) by simp
  let ?gam = "Tensor [N, C, 1, 1] (data g)"
  let ?bet = "Tensor [N, C, 1, 1] (data b)"
  define og where "og = tabulate ?s (\<lambda>i. data xn ! bidx ?s ?s i * data ?gam ! bidx ?s [N, C, 1, 1] i)"
  define s1 where "s1 = tabulate ?s (\<lambda>i. data xn ! bidx ?s ?s i + data og ! bidx ?s ?s i)"
  define out where "out = tabulate ?s (\<lambda>i. data s1 ! bidx ?s ?s i + data ?bet ! bidx ?s [N, C, 1, 1] i)"
  have 4: "t_mul xn ?gam = Inr og"
    unfolding t_mul_def og_def by (rule broadcast2_chan [OF xs]) simp
  have 5: "t_add xn og = Inr s1"
    unfolding t_add_def s1_def by (rule broadcast2_same [OF xs]) (simp add: og_def)
  have 6: "t_add s1 ?bet = Inr out"
    unfolding t_add_def out_def by (rule broadcast2_chan) (simp_all add: s1_def)
  let ?m' = "m \<lparr> cbn_bn := bn', cbn_embed_gamma := cbn_embed_gamma m,
                 cbn_embed_beta := cbn_embed_beta m \<rparr>"
  have fw: "ConditionalBatchNorm2d_forward m x y = Inr (?m', out)"
    unfolding ConditionalBatchNorm2d_forward_def
    using 1 2 3 view_chan [OF C g(2)] view_chan [OF C b(2)] nf 4 5 6 by simp
  have os: "shape out = ?s" by (simp add: out_def)
  have vals: "at4 xn n c h w =
          (at4 x n c h w - bn_mu (cbn_bn m) x c) / sqrt (bn_sigma2 (cbn_bn m) x c + bn_eps) \<and>
        at4 out n c h w =
          at4 xn n c h w + at4 xn n c h w * data g ! (n * C + c) + data b ! (n * C + c)"
    if idx: "n < N" "c < C" "h < H" "w < W" for n c h w
  proof
    show "at4 xn n c h w =
          (at4 x n c h w - bn_mu (cbn_bn m) x c) / sqrt (bn_sigma2 (cbn_bn m) x c + bn_eps)"
      unfolding xn_def by (rule bn_apply_at4 [OF aff x idx])
    let ?i = "((n * C + c) * H + h) * W + w"
    have "?i < N * C * H * W" by (rule flat4(1) [OF idx])
    then have lt: "?i < prod_list ?s" by (simp add: mult.assoc)
    have same: "bidx ?s ?s ?i = ?i" by (rule bidx_same [OF lt])
    have ch: "bidx ?s [N, C, 1, 1] ?i = n * C + c" by (rule bidx_chan [OF idx])
    have a: "data og ! ?i = data xn ! ?i * data g ! (n * C + c)"
      unfolding og_def data_tabulate [OF lt] same ch by simp
    have b': "data s1 ! ?i = data xn ! ?i + data og ! ?i"
      unfolding s1_def data_tabulate [OF lt] same ..
    have c': "data out ! ?i = data s1 ! ?i + data b ! (n * C + c)"
      unfolding out_def data_tabulate [OF lt] same ch by simp
    show "at4 out n c h w =
          at4 xn n c h w + at4 xn n c h w * data g ! (n * C + c) + data b ! (n * C + c)"
      unfolding at4_flat [OF os] at4_flat [OF xs] c' b' a ..
  qed
  have "cbn_bn ?m' = bn'" by simp
  with 1 have bnr: "BatchNorm2d_forward (cbn_bn m) x = Inr (cbn_bn ?m', xn)" by simp
  show ?thesis
    using bnr g(1) b(1) fw os vals by blast
qed

theorem conditional_batchnorm_formula_witness:
  "\<exists>m' normalized gamma beta out.
     BatchNorm2d_forward (cbn_bn (ConditionalBatchNorm2d_init (\<lambda>k i. 0) 1 1))
       (Tensor [1, 1, 1, 2] [0, 0]) = Inr (cbn_bn m', normalized) \<and>
     F_linear (Tensor [1, 1] [0])
       (ln_weight (cbn_embed_gamma (ConditionalBatchNorm2d_init (\<lambda>k i. 0) 1 1))) None = Inr gamma \<and>
     F_linear (Tensor [1, 1] [0])
       (ln_weight (cbn_embed_beta (ConditionalBatchNorm2d_init (\<lambda>k i. 0) 1 1))) None = Inr beta \<and>
     ConditionalBatchNorm2d_forward (ConditionalBatchNorm2d_init (\<lambda>k i. 0) 1 1)
       (Tensor [1, 1, 1, 2] [0, 0]) (Tensor [1, 1] [0]) = Inr (m', out) \<and>
     shape out = [1, 1, 1, 2] \<and>
     at4 out 0 0 0 1 =
       at4 normalized 0 0 0 1 + at4 normalized 0 0 0 1 * data gamma ! 0 + data beta ! 0"
proof -
  have x: "shape (Tensor [1, 1, 1, 2] [0, 0]) = [1, 1, 1, 2]" "wf_tensor (Tensor [1, 1, 1, 2] [0, 0])"
    by (simp_all add: wf_tensor_def)
  have one: "(1::nat) * 1 * 2 \<noteq> 1" by simp
  have y: "shape (Tensor [1, 1] [0]) = [1, 1]" by simp
  from conditional_batchnorm_formula
    [OF wf_ConditionalBatchNorm2d_init [of "\<lambda>k i. 0" 1 1] x one y]
  obtain m' normalized gamma beta out where
    r: "BatchNorm2d_forward (cbn_bn (ConditionalBatchNorm2d_init (\<lambda>k i. 0) 1 1))
       (Tensor [1, 1, 1, 2] [0, 0]) = Inr (cbn_bn m', normalized)"
     "F_linear (Tensor [1, 1] [0])
       (ln_weight (cbn_embed_gamma (ConditionalBatchNorm2d_init (\<lambda>k i. 0) 1 1))) None = Inr gamma"
     "F_linear (Tensor [1, 1] [0])
       (ln_weight (cbn_embed_beta (ConditionalBatchNorm2d_init (\<lambda>k i. 0) 1 1))) None = Inr beta"
     "ConditionalBatchNorm2d_forward (ConditionalBatchNorm2d_init (\<lambda>k i. 0) 1 1)
       (Tensor [1, 1, 1, 2] [0, 0]) (Tensor [1, 1] [0]) = Inr (m', out)"
     "shape out = [1, 1, 1, 2]"
    and v: "\<forall>n<1. \<forall>c<1. \<forall>h<1. \<forall>w<2.
        at4 out n c h w =
          at4 normalized n c h w + at4 normalized n c h w * data gamma ! (n * 1 + c)
            + data beta ! (n * 1 + c)"
    by auto
  have "at4 out 0 0 0 1 =
       at4 normalized 0 0 0 1 + at4 normalized 0 0 0 1 * data gamma ! 0 + data beta ! 0"
    using v by auto
  with r show ?thesis by blast
qed

section \<open>The discriminator's score\<close>

lemma sum_list_upt_cong:
  "(\<And>j. j < n \<Longrightarrow> f j = g j) \<Longrightarrow> (\<Sum>j\<leftarrow>[0..<n]. f j) = (\<Sum>j\<leftarrow>[0..<n]. (g j :: real))"
  by (intro arg_cong [where f = sum_list] map_cong) auto

lemma F_linear_rows:
  assumes "shape x = [N, fin]" "shape W = [fout, fin]" "wf_bias b fout"
  shows "F_linear x W b =
     Inr (tabulate [N, fout]
       (\<lambda>i. (\<Sum>k\<leftarrow>[0..<fin]. data x ! ((i div fout) * fin + k) * data W ! ((i mod fout) * fin + k))
            + (case b of None \<Rightarrow> 0 | Some bt \<Rightarrow> data bt ! (i mod fout))))"
  using assms by (auto simp: F_linear_def Let_def wf_bias_def split: option.splits)

lemma Linear_forward_spectral:
  assumes "ln_sn lin = Some st"
  shows "Linear_forward lin y =
     ebind (F_linear y (spectral_normalized (ln_training lin) (ln_weight lin) st) (ln_bias lin))
       (\<lambda>out. Inr (lin \<lparr> ln_sn := Some (sn_step (ln_training lin) (ln_weight lin) st) \<rparr>, out))"
  using assms by (simp add: Linear_forward_def effective_weight_def spectral_normalized_def Let_def)

lemma shape_spectral_normalized [simp]: "shape (spectral_normalized tr W st) = shape W"
  by (simp add: spectral_normalized_def sn_weight_def)

lemma sum_dim1_rows:
  "shape t = [B, D] \<Longrightarrow>
   sum_dim1 t = Inr (tabulate [B, 1] (\<lambda>i. \<Sum>j\<leftarrow>[0..<D]. data t ! (i * D + j)))"
  by (simp add: sum_dim1_def Let_def)

text \<open>
  Claim C6. The discriminator's final score is, per sample, the sum of two scalars: a
  spectral-normalised linear map applied to the flattened 4x4 feature vector, and the
  sum over the feature axis of the flattened features multiplied entry by entry with the
  label embedding projected, by a spectral-normalised linear map without bias, to the
  flattened dimensionality.
\<close>

theorem discriminator_score_formula:
  assumes wf: "wf_discriminator d de ch" and ch: "0 < ch"
    and x: "shape x = [N, 3, 64, 64]" and h: "shape h = [N, de]"
  shows "\<exists>d1 feat st1 st2 d' out.
     SnganDiscriminator_features d x = Inr (d1, feat) \<and>
     shape feat = [N, ch * 16, 4, 4] \<and>
     ln_sn (dis_linear1 d) = Some st1 \<and>
     ln_sn (dis_linear2 d) = Some st2 \<and> ln_bias (dis_linear2 d) = None \<and>
     SnganDiscriminator_forward d x h = Inr (d', out) \<and> shape out = [N, 1] \<and>
     (\<forall>n<N. data out ! n =
        ((\<Sum>j\<leftarrow>[0..<ch * 16 * 4 * 4].
            data feat ! (n * (ch * 16 * 4 * 4) + j) *
            data (spectral_normalized (ln_training (dis_linear1 d)) (ln_weight (dis_linear1 d)) st1) ! j)
         + (case ln_bias (dis_linear1 d) of None \<Rightarrow> 0 | Some bt \<Rightarrow> data bt ! 0))
        + (\<Sum>j\<leftarrow>[0..<ch * 16 * 4 * 4].
            data feat ! (n * (ch * 16 * 4 * 4) + j) *
            (\<Sum>e\<leftarrow>[0..<de]. data h ! (n * de + e) *
               data (spectral_normalized (ln_training (dis_linear2 d)) (ln_weight (dis_linear2 d)) st2)
                 ! (j * de + e))))"
proof -
  define D where "D = ch * 16 * 4 * 4"
  have Dpos: "0 < D" using ch by (simp add: D_def)
  have big: "(16::nat) \<le> 64" by simp
  from SnganDiscriminator_schedule [OF wf x big big]
  obtain b10 b11 b12 b2 b30 t5 where t5: "shape t5 = [N, ch * 16, 64 div 16, 64 div 16]" "wf_tensor t5"
    and f: "SnganDiscriminator_features d x =
        Inr (d \<lparr> dis_discblock1_0 := b10, dis_discblock1_1 := b11, dis_discblock1_2 := b12,
                 dis_discblock2 := b2, dis_discblock3_0 := b30 \<rparr>, relu t5)"
    by blast
  define d1 where "d1 = d \<lparr> dis_discblock1_0 := b10, dis_discblock1_1 := b11,
      dis_discblock1_2 := b12, dis_discblock2 := b2, dis_discblock3_0 := b30 \<rparr>"
  define feat where "feat = relu t5"
  have f': "SnganDiscriminator_features d x = Inr (d1, feat)" using f by (simp add: d1_def feat_def)
  have fs: "shape feat = [N, ch * 16, 4, 4]" using t5 by (simp add: feat_def)
  have l1e: "dis_linear1 d1 = dis_linear1 d" and l2e: "dis_linear2 d1 = dis_linear2 d"
    and che: "dis_disc_ch d1 = ch"
    using wf by (simp_all add: d1_def wf_discriminator_def)
  from wf obtain st1 st2 where st1: "ln_sn (dis_linear1 d) = Some st1"
    and st2: "ln_sn (dis_linear2 d) = Some st2" and nb: "ln_bias (dis_linear2 d) = None"
    and w1: "shape (ln_weight (dis_linear1 d)) = [1, D]" "wf_bias (ln_bias (dis_linear1 d)) 1"
    and w2: "shape (ln_weight (dis_linear2 d)) = [D, de]"
    by (auto simp: wf_discriminator_def wf_linear_def D_def)
  define W1 where "W1 = spectral_normalized (ln_training (dis_linear1 d)) (ln_weight (dis_linear1 d)) st1"
  define W2 where "W2 = spectral_normalized (ln_training (dis_linear2 d)) (ln_weight (dis_linear2 d)) st2"
  define bias1 where "bias1 = (case ln_bias (dis_linear1 d) of None \<Rightarrow> 0 | Some bt \<Rightarrow> data bt ! 0)"
  have W1s: "shape W1 = [1, D]" and W2s: "shape W2 = [D, de]" using w1 w2 by (simp_all add: W1_def W2_def)
  \<comment> \<open>the flattening\<close>
  have n: "numel feat = N * (ch * 16) * 4 * 4" using fs by (simp add: numel_def)
  let ?o = "Tensor [N, D] (data feat)"
  have md: "numel feat mod D = 0"
    unfolding n D_def using flat_rows(1) [OF ch, of N 4 4] by simp
  have dv: "numel feat div D = N"
    unfolding n D_def using flat_rows(2) [OF ch, of N 4 4] by simp
  have v: "view feat [- 1, int D] = Inr ?o"
    unfolding view_rows [OF Dpos] md dv by simp
  have os: "shape ?o = [N, D]" by simp
  \<comment> \<open>the projected embedding\<close>
  define hp where "hp = tabulate [N, D]
       (\<lambda>i. (\<Sum>k\<leftarrow>[0..<de]. data h ! ((i div D) * de + k) * data W2 ! ((i mod D) * de + k)) + 0)"
  have "F_linear h W2 None = Inr hp"
    using F_linear_rows [OF h W2s, of None] by (simp add: hp_def wf_bias_def)
  then have 2: "Linear_forward (dis_linear2 d) h =
      Inr (dis_linear2 d \<lparr> ln_sn := Some (sn_step (ln_training (dis_linear2 d))
              (ln_weight (dis_linear2 d)) st2) \<rparr>, hp)"
    unfolding Linear_forward_spectral [OF st2] nb W2_def [symmetric] by simp
  define pr where "pr = tabulate [N, D] (\<lambda>i. data ?o ! bidx [N, D] [N, D] i * data hp ! bidx [N, D] [N, D] i)"
  have 3: "t_mul ?o hp = Inr pr"
    unfolding t_mul_def pr_def by (rule broadcast2_same [OF os]) (simp add: hp_def)
  define oh where "oh = tabulate [N, 1] (\<lambda>i. \<Sum>j\<leftarrow>[0..<D]. data pr ! (i * D + j))"
  have 4: "sum_dim1 pr = Inr oh"
    unfolding oh_def by (rule sum_dim1_rows) (simp add: pr_def)
  define lo where "lo = tabulate [N, 1]
       (\<lambda>i. (\<Sum>k\<leftarrow>[0..<D]. data ?o ! ((i div 1) * D + k) * data W1 ! ((i mod 1) * D + k))
            + (case ln_bias (dis_linear1 d) of None \<Rightarrow> 0 | Some bt \<Rightarrow> data bt ! (i mod 1)))"
  have "F_linear ?o W1 (ln_bias (dis_linear1 d)) = Inr lo"
    using F_linear_rows [OF os W1s w1(2)] by (simp add: lo_def)
  then have 5: "Linear_forward (dis_linear1 d) ?o =
      Inr (dis_linear1 d \<lparr> ln_sn := Some (sn_step (ln_training (dis_linear1 d))
              (ln_weight (dis_linear1 d)) st1) \<rparr>, lo)"
    unfolding Linear_forward_spectral [OF st1] W1_def [symmetric] by simp
  define s where "s = tabulate [N, 1] (\<lambda>i. data lo ! bidx [N, 1] [N, 1] i + data oh ! bidx [N, 1] [N, 1] i)"
  have 6: "t_add lo oh = Inr s"
    unfolding t_add_def s_def by (rule broadcast2_same) (simp_all add: lo_def oh_def)
  let ?out = "Tensor [N, 1] (data s)"
  have 7: "view s [- 1, 1] = Inr ?out"
    unfolding view_column by (simp add: numel_def s_def)
  obtain d' where fw: "SnganDiscriminator_forward d x h = Inr (d', ?out)"
    using f' v 2 3 4 5 6 7 che l1e l2e
    by (simp add: SnganDiscriminator_forward_def D_def)
  have vals: "data ?out ! n =
        ((\<Sum>j\<leftarrow>[0..<D]. data feat ! (n * D + j) * data W1 ! j) + bias1)
        + (\<Sum>j\<leftarrow>[0..<D]. data feat ! (n * D + j) *
            (\<Sum>e\<leftarrow>[0..<de]. data h ! (n * de + e) * data W2 ! (j * de + e)))"
    if n: "n < N" for n
  proof -
    have lt1: "n < prod_list [N, 1]" using n by simp
    have same: "bidx [N, 1] [N, 1] n = n" by (rule bidx_same [OF lt1])
    have a: "data s ! n = data lo ! n + data oh ! n"
      unfolding s_def data_tabulate [OF lt1] same ..
    have b: "data lo ! n = (\<Sum>j\<leftarrow>[0..<D]. data feat ! (n * D + j) * data W1 ! j) + bias1"
      unfolding lo_def data_tabulate [OF lt1] bias1_def by (simp split: option.splits)
    have c: "data pr ! (n * D + j) =
        data feat ! (n * D + j) * (\<Sum>e\<leftarrow>[0..<de]. data h ! (n * de + e) * data W2 ! (j * de + e))"
      if j: "j < D" for j
    proof -
      have "n * D + j < N * D" using n j by (rule flat_less)
      then have lt: "n * D + j < prod_list [N, D]" by simp
      have sm: "bidx [N, D] [N, D] (n * D + j) = n * D + j" by (rule bidx_same [OF lt])
      have dv: "(n * D + j) div D = n" using j by (rule flat_div)
      have md: "(n * D + j) mod D = j" using j by (rule flat_mod)
      have "data hp ! (n * D + j) =
          (\<Sum>e\<leftarrow>[0..<de]. data h ! (n * de + e) * data W2 ! (j * de + e))"
        unfolding hp_def data_tabulate [OF lt] dv md by simp
      then show ?thesis
        unfolding pr_def data_tabulate [OF lt] sm by simp
    qed
    have e: "data oh ! n = (\<Sum>j\<leftarrow>[0..<D]. data feat ! (n * D + j) *
            (\<Sum>e\<leftarrow>[0..<de]. data h ! (n * de + e) * data W2 ! (j * de + e)))"
      unfolding oh_def data_tabulate [OF lt1] by (rule sum_list_upt_cong) (rule c)
    show ?thesis using a b e by simp
  qed
  have os1: "shape ?out = [N, 1]" by simp
  show ?thesis
    using f' fs st1 st2 nb fw os1 vals
    unfolding D_def W1_def W2_def bias1_def by blast
qed

theorem discriminator_score_formula_witness:
  "\<exists>d1 feat st1 st2 d' out.
     SnganDiscriminator_features (SnganDiscriminator_init (\<lambda>k i. 0) 1 1)
       (Tensor [1, 3, 64, 64] (replicate 12288 0)) = Inr (d1, feat) \<and>
     ln_sn (dis_linear1 (SnganDiscriminator_init (\<lambda>k i. 0) 1 1)) = Some st1 \<and>
     ln_sn (dis_linear2 (SnganDiscriminator_init (\<lambda>k i. 0) 1 1)) = Some st2 \<and>
     SnganDiscriminator_forward (SnganDiscriminator_init (\<lambda>k i. 0) 1 1)
       (Tensor [1, 3, 64, 64] (replicate 12288 0)) (Tensor [1, 1] [0]) = Inr (d', out) \<and>
     shape out = [1, 1] \<and>
     data out ! 0 =
        ((\<Sum>j\<leftarrow>[0..<1 * 16 * 4 * 4].
            data feat ! (0 * (1 * 16 * 4 * 4) + j) *
            data (spectral_normalized (ln_training (dis_linear1 (SnganDiscriminator_init (\<lambda>k i. 0) 1 1)))
                    (ln_weight (dis_linear1 (SnganDiscriminator_init (\<lambda>k i. 0) 1 1))) st1) ! j)
         + (case ln_bias (dis_linear1 (SnganDiscriminator_init (\<lambda>k i. 0) 1 1)) of
              None \<Rightarrow> 0 | Some bt \<Rightarrow> data bt ! 0))
        + (\<Sum>j\<leftarrow>[0..<1 * 16 * 4 * 4].
            data feat ! (0 * (1 * 16 * 4 * 4) + j) *
            (\<Sum>e\<leftarrow>[0..<1]. data (Tensor [1, 1] [0]) ! (0 * 1 + e) *
               data (spectral_normalized (ln_training (dis_linear2 (SnganDiscriminator_init (\<lambda>k i. 0) 1 1)))
                       (ln_weight (dis_linear2 (SnganDiscriminator_init (\<lambda>k i. 0) 1 1))) st2)
                 ! (j * 1 + e)))"
proof -
  have c: "(0::nat) < 1" by simp
  have x: "shape (Tensor [1, 3, 64, 64] (replicate 12288 0)) = [1, 3, 64, 64]" by simp
  have h: "shape (Tensor [1, 1] [0]) = [1, 1]" by simp
  from discriminator_score_formula [OF wf_SnganDiscriminator_init [of "\<lambda>k i. 0" 1 1] c x h]
  show ?thesis
    apply (elim exE conjE)
    subgoal for d1 feat st1 st2 d' out
      apply (rule exI [of _ d1], rule exI [of _ feat], rule exI [of _ st1], rule exI [of _ st2],
          rule exI [of _ d'], rule exI [of _ out])
      apply (intro conjI; assumption?)
      apply (drule spec [of _ 0], drule mp, rule c, assumption)
      done
    done
qed

end
